theory Spec2Isabelle
  imports Complex_Main "HOL-Library.Sublist"
begin

section \<open>Image uploader (components/ImageUploader.tsx)\<close>

text \<open>
  A browser \<open>File\<close>, reduced to the three properties the uploader reads:
  \<open>file.name\<close>, \<open>file.type\<close> (the mime type) and \<open>file.size\<close> (bytes).
\<close>

record jsfile =
  file_name :: string
  file_type :: string
  file_size :: nat

definition MAX_FILES :: nat where
  "MAX_FILES = 8"

definition MAX_SIZE_MB :: nat where
  "MAX_SIZE_MB = 5"

definition MAX_SIZE_BYTES :: nat where
  "MAX_SIZE_BYTES = MAX_SIZE_MB * 1024 * 1024"

text \<open>
  The blob URLs of the previews. \<open>URL.createObjectURL\<close> hands out a fresh URL on every call
  and \<open>URL.revokeObjectURL\<close> releases one; the registry is the browser's side of that:
  a counter for the next URL and the URLs that are live.
\<close>

record blob_registry =
  next_blob :: nat
  live_blobs :: "nat list"

definition createObjectURL :: "jsfile \<Rightarrow> blob_registry \<Rightarrow> nat \<times> blob_registry" where
  "createObjectURL f reg =
     (next_blob reg,
      reg\<lparr>next_blob := Suc (next_blob reg), live_blobs := live_blobs reg @ [next_blob reg]\<rparr>)"

definition revokeObjectURL :: "nat \<Rightarrow> blob_registry \<Rightarrow> blob_registry" where
  "revokeObjectURL u reg = reg\<lparr>live_blobs := removeAll u (live_blobs reg)\<rparr>"

text \<open>The component's state: one field per \<open>useState\<close> hook.\<close>

record uploader =
  currentFiles :: "jsfile list"
  previews :: "nat list"
  dragActive :: bool
  uploadError :: "string option"
  selectedImageIndex :: nat

definition not_image_message :: "jsfile \<Rightarrow> string" where
  "not_image_message f = ''File \"'' @ file_name f @ ''\" is not a valid image type.''"

definition too_large_message :: "jsfile \<Rightarrow> string" where
  "too_large_message f = ''File \"'' @ file_name f @ ''\" is too large (max 5MB).''"

definition too_many_message :: string where
  "too_many_message = ''You can only upload a maximum of 8 images.''"

text \<open>
  The \<open>for (const file of filesArray)\<close> loop of \<open>processFiles\<close>, with its two
  accumulators \<open>validFiles\<close> and \<open>newPreviews\<close>. The type test comes before the size test,
  and the first file that fails either one ends the loop with that file's message
  (\<open>Inl\<close>, an early \<open>return\<close> in the source).
\<close>

fun scanFiles ::
  "jsfile list \<Rightarrow> jsfile list \<Rightarrow> nat list \<Rightarrow> blob_registry
     \<Rightarrow> (string + jsfile list \<times> nat list) \<times> blob_registry" where
  "scanFiles [] validFiles newPreviews reg = (Inr (validFiles, newPreviews), reg)"
| "scanFiles (f # fs) validFiles newPreviews reg =
     (if \<not> prefix ''image/'' (file_type f) then (Inl (not_image_message f), reg)
      else if file_size f > MAX_SIZE_BYTES then (Inl (too_large_message f), reg)
      else (case createObjectURL f reg of
              (u, reg') \<Rightarrow> scanFiles fs (validFiles @ [f]) (newPreviews @ [u]) reg'))"

text \<open>
  The three state updates every rejecting branch of \<open>processFiles\<close> makes:
  \<open>setUploadError(msg); setCurrentFiles([]); setPreviews([])\<close>.
\<close>

definition reject_selection :: "string \<Rightarrow> uploader \<Rightarrow> uploader" where
  "reject_selection msg u = u\<lparr>uploadError := Some msg, currentFiles := [], previews := []\<rparr>"

text \<open>
  \<open>processFiles(selectedFiles)\<close>. The selection is \<open>None\<close> for \<open>null\<close>. The state is the
  component's own state, the blob registry and the parent's state \<open>p\<close>, which the
  callback \<open>onImagesChange\<close> updates.
\<close>

definition processFiles ::
  "(jsfile list \<Rightarrow> 'p \<Rightarrow> 'p) \<Rightarrow> jsfile list option \<Rightarrow> uploader \<times> blob_registry \<times> 'p
     \<Rightarrow> uploader \<times> blob_registry \<times> 'p" where
  "processFiles onImagesChange selectedFiles s =
     (case selectedFiles of
        None \<Rightarrow> s
      | Some filesArray \<Rightarrow>
          (case s of (u, reg, p) \<Rightarrow>
             let u1 = u\<lparr>uploadError := None\<rparr>;
                 reg1 = fold revokeObjectURL (previews u) reg
             in if length filesArray > MAX_FILES
                then (reject_selection too_many_message u1, reg1, onImagesChange [] p)
                else (case scanFiles filesArray [] [] reg1 of
                        (Inl msg, reg2) \<Rightarrow>
                          (reject_selection msg u1, reg2, onImagesChange [] p)
                      | (Inr (validFiles, newPreviews), reg2) \<Rightarrow>
                          (u1\<lparr>currentFiles := validFiles, previews := newPreviews,
                              selectedImageIndex := 0\<rparr>,
                           reg2, onImagesChange validFiles p))))"

text \<open>What the uploader's hint and the claims call a valid file.\<close>

definition valid_file :: "jsfile \<Rightarrow> bool" where
  "valid_file f \<longleftrightarrow> prefix ''image/'' (file_type f) \<and> file_size f \<le> 5 * 1024 * 1024"

definition valid_selection :: "jsfile list \<Rightarrow> bool" where
  "valid_selection fs \<longleftrightarrow> length fs \<le> 8 \<and> list_all valid_file fs"

section \<open>JavaScript values\<close>

text \<open>
  A value produced by \<open>JSON.parse\<close> or \<open>response.json()\<close>. An object is the list of
  its own properties; a parsed object has each key once. \<open>undefined\<close> is not a JSON
  value: a property read gives a \<open>json option\<close>, \<open>None\<close> for \<open>undefined\<close>.
\<close>

datatype json =
    JNull
  | JBool bool
  | JNum rat
  | JStr string
  | JArr "json list"
  | JObj "(string \<times> json) list"

text \<open>What \<open>if (v)\<close>, \<open>!v\<close> and \<open>v || w\<close> test.\<close>

fun truthy :: "json option \<Rightarrow> bool" where
  "truthy None = False"
| "truthy (Some JNull) = False"
| "truthy (Some (JBool b)) = b"
| "truthy (Some (JNum n)) = (n \<noteq> 0)"
| "truthy (Some (JStr s)) = (s \<noteq> [])"
| "truthy (Some (JArr vs)) = True"
| "truthy (Some (JObj kvs)) = True"

text \<open>
  \<open>v.k\<close> for a value \<open>v\<close> that is not \<open>null\<close>, and a key \<open>k\<close> that no prototype
  defines (none of the keys read in this program is \<open>length\<close> or another built-in):
  an object gives its own property, every other value \<open>undefined\<close>.
\<close>

fun property :: "json \<Rightarrow> string \<Rightarrow> json option" where
  "property (JObj kvs) k = map_of kvs k"
| "property v k = None"

fun isArray :: "json option \<Rightarrow> bool" where
  "isArray (Some (JArr vs)) = True"
| "isArray v = False"

text \<open>\<open>v.length\<close> of an array (read only after \<open>Array.isArray(v)\<close>).\<close>

fun array_length :: "json option \<Rightarrow> nat" where
  "array_length (Some (JArr vs)) = length vs"
| "array_length v = 0"

text \<open>
  A thrown value: an instance of \<open>Error\<close> with its message, or anything else.
  The engine's own errors are instances of \<open>Error\<close>; the text of the \<open>TypeError\<close>
  of reading property \<open>k\<close> of \<open>null\<close> or \<open>undefined\<close> is the engine's, and
  so is the text \<open>String(v)\<close> of a value that is not a string. Both are parameters.
\<close>

datatype thrown = Error string | Thrown_value

record engine =
  typeErrorText :: "string \<Rightarrow> string"
  toText :: "json \<Rightarrow> string"

definition String_of :: "engine \<Rightarrow> json \<Rightarrow> string" where
  "String_of js v = (case v of JStr s \<Rightarrow> s | _ \<Rightarrow> toText js v)"

section \<open>Listing-generation client (services/geminiService.ts)\<close>

text \<open>
  The response of \<open>fetch\<close>: \<open>response.ok\<close>, \<open>response.status\<close> and the outcome of
  \<open>response.json()\<close>, which rejects with an \<open>Error\<close> (\<open>Inl\<close>, its message) when the body
  is not JSON.
\<close>

record http_response =
  resp_ok :: bool
  resp_status :: nat
  resp_json :: "string + json"

datatype fetch_outcome = Fetch_rejects thrown | Fetch_resolves http_response

definition timeout_message :: string where
  "timeout_message = ''The AI model is taking too long to respond, which can happen with complex items or during peak hours. Please try generating the listing again.''"

text \<open>
  The \<open>!response.ok\<close> branch: the message of the \<open>Error\<close> it throws. The first assignment
  (\<open>Request failed with status ...\<close>) is overwritten on both paths of the inner
  \<open>try\<close>/\<open>catch\<close>. A body that is \<open>null\<close> makes \<open>errorData.error\<close> throw inside the
  \<open>try\<close>, which the inner \<open>catch\<close> handles like a body that is not JSON.
\<close>

definition backend_error_message :: "engine \<Rightarrow> string + json \<Rightarrow> string" where
  "backend_error_message js body =
     (case body of
        Inl m \<Rightarrow> timeout_message
      | Inr JNull \<Rightarrow> timeout_message
      | Inr errorData \<Rightarrow>
          (if truthy (property errorData ''error'') then String_of js (the (property errorData ''error''))
           else if truthy (property errorData ''details'')
                then String_of js (the (property errorData ''details''))
           else ''Failed to generate listing from backend.''))"

text \<open>The test under \<open>// Basic validation\<close>, for \<open>listingData\<close> other than \<open>null\<close>.\<close>

definition malformed :: "json \<Rightarrow> bool" where
  "malformed listingData \<longleftrightarrow>
     \<not> truthy (property listingData ''title'') \<or>
     \<not> truthy (property listingData ''category'') \<or>
     \<not> isArray (property listingData ''category'') \<or>
     array_length (property listingData ''category'') = 0 \<or>
     \<not> truthy (property listingData ''itemSpecifics'') \<or>
     \<not> truthy (property listingData ''description'')"

text \<open>The outer \<open>catch\<close>: every thrown value is replaced by a new \<open>Error\<close> with this message.\<close>

definition rethrow :: "thrown \<Rightarrow> string" where
  "rethrow t =
     (case t of
        Error m \<Rightarrow> ''Failed to generate listing. Details: '' @ m
      | Thrown_value \<Rightarrow> ''An unknown error occurred while generating the listing.'')"

text \<open>
  \<open>generateEbayListing(imageParts, personalNote, isHighQuality)\<close>. The promise either
  rejects with an \<open>Error\<close> (\<open>Inl\<close>, its message) or resolves with \<open>listingData\<close>, cast
  to \<open>EbayListing\<close> and otherwise untouched. \<open>fetch\<close> is the network, a parameter.
\<close>

definition generateEbayListing ::
  "engine \<Rightarrow> ((string \<times> string) list \<times> string \<times> bool \<Rightarrow> fetch_outcome)
     \<Rightarrow> (string \<times> string) list \<Rightarrow> string \<Rightarrow> bool \<Rightarrow> string + json" where
  "generateEbayListing js fetch imageParts personalNote isHighQuality =
     (case fetch (imageParts, personalNote, isHighQuality) of
        Fetch_rejects t \<Rightarrow> Inl (rethrow t)
      | Fetch_resolves response \<Rightarrow>
          if \<not> resp_ok response
          then Inl (rethrow (Error (backend_error_message js (resp_json response))))
          else (case resp_json response of
                  Inl m \<Rightarrow> Inl (rethrow (Error m))
                | Inr JNull \<Rightarrow> Inl (rethrow (Error (typeErrorText js ''title'')))
                | Inr listingData \<Rightarrow>
                    if malformed listingData
                    then Inl (rethrow (Error ''Received malformed data from the backend.''))
                    else Inr listingData))"

text \<open>The four fields the claim about this function names, read off a returned value.\<close>

definition well_formed_listing :: "json \<Rightarrow> bool" where
  "well_formed_listing d \<longleftrightarrow>
     property d ''title'' \<noteq> None \<and>
     (case property d ''category'' of Some (JArr cs) \<Rightarrow> cs \<noteq> [] | _ \<Rightarrow> False) \<and>
     property d ''itemSpecifics'' \<noteq> None \<and>
     property d ''description'' \<noteq> None"

section \<open>Listing-generation handler (api/generateListing.ts)\<close>

record vercel_request =
  req_method :: string
  req_body :: "json option"

text \<open>
  What \<open>res.status(n).json(...)\<close> sends: \<open>{error}\<close>, \<open>{error, details}\<close> (\<open>details\<close> is
  \<open>error.message\<close>, \<open>undefined\<close> for a thrown value that is no \<open>Error\<close>) or the listing.
\<close>

datatype api_payload =
    Error_payload string
  | Failure_payload string "string option"
  | Listing_payload json

record api_response =
  status :: nat
  payload :: api_payload

text \<open>
  The argument of \<open>ai.models.generateContent\<close>: the model name, the image parts
  (\<open>part.mimeType\<close>, \<open>part.data\<close>), the two values interpolated into the prompt (whether the
  high-detail instructions are included, and the note) and the temperature. The fixed
  text of the prompt, the system instruction and the response schema are constants of
  the source and are left out.
\<close>

record ai_call =
  ai_model :: string
  ai_parts :: "(json option \<times> json option) list"
  ai_high_detail :: bool
  ai_note :: json
  ai_temperature :: rat

text \<open>
  \<open>imageParts.map(part => ...)\<close>: reading \<open>part.mimeType\<close> of an element that is \<open>null\<close>
  throws a \<open>TypeError\<close>.
\<close>

fun formatImageParts :: "engine \<Rightarrow> json list \<Rightarrow> thrown + (json option \<times> json option) list" where
  "formatImageParts js [] = Inr []"
| "formatImageParts js (part # rest) =
     (case part of
        JNull \<Rightarrow> Inl (Error (typeErrorText js ''mimeType''))
      | _ \<Rightarrow> (case formatImageParts js rest of
                Inl t \<Rightarrow> Inl t
              | Inr ps \<Rightarrow> Inr ((property part ''mimeType'', property part ''data'') # ps)))"

definition message_of :: "thrown \<Rightarrow> string option" where
  "message_of t = (case t of Error m \<Rightarrow> Some m | Thrown_value \<Rightarrow> None)"

text \<open>The \<open>catch\<close> of the handler.\<close>

definition failed :: "thrown \<Rightarrow> api_response" where
  "failed t =
     \<lparr>status = 500,
      payload = Failure_payload ''Failed to generate listing from Gemini API.'' (message_of t)\<rparr>"

definition array_items :: "json option \<Rightarrow> json list" where
  "array_items v = (case v of Some (JArr vs) \<Rightarrow> vs | _ \<Rightarrow> [])"

text \<open>
  \<open>handler(req, res)\<close>. The AI model and \<open>JSON.parse(text.trim())\<close> are parameters:
  \<open>generateContent\<close> throws (\<open>Inl\<close>) or returns \<open>response.text\<close> (\<open>None\<close> for
  \<open>undefined\<close>); \<open>parse\<close> throws a \<open>SyntaxError\<close> (\<open>Inl\<close>, its message) or returns the value.
  The result is the response sent and the calls made to the AI model, in order.
\<close>

definition handler ::
  "engine \<Rightarrow> (ai_call \<Rightarrow> thrown + string option) \<Rightarrow> (string \<Rightarrow> string + json)
     \<Rightarrow> vercel_request \<Rightarrow> api_response \<times> ai_call list" where
  "handler js generateContent parse req =
     (if req_method req \<noteq> ''POST''
      then (\<lparr>status = 405, payload = Error_payload ''Method Not Allowed''\<rparr>, [])
      else (case req_body req of
              None \<Rightarrow> (failed (Error (typeErrorText js ''imageParts'')), [])
            | Some JNull \<Rightarrow> (failed (Error (typeErrorText js ''imageParts'')), [])
            | Some body \<Rightarrow>
                let imageParts = property body ''imageParts'';
                    personalNote = property body ''personalNote'';
                    isHighQuality = property body ''isHighQuality''
                in if \<not> truthy imageParts \<or> \<not> isArray imageParts \<or> array_length imageParts = 0
                   then (\<lparr>status = 400, payload = Error_payload ''Image data is required.''\<rparr>, [])
                   else (case formatImageParts js (array_items imageParts) of
                           Inl t \<Rightarrow> (failed t, [])
                         | Inr formattedImageParts \<Rightarrow>
                             let call = \<lparr>ai_model = ''gemini-2.5-flash'',
                                         ai_parts = formattedImageParts,
                                         ai_high_detail = truthy isHighQuality,
                                         ai_note = (if truthy personalNote then the personalNote
                                                    else JStr ''No personal note provided.''),
                                         ai_temperature = (if truthy isHighQuality then 7 / 10
                                                           else 4 / 10)\<rparr>
                             in (case generateContent call of
                                   Inl t \<Rightarrow> (failed t, [call])
                                 | Inr None \<Rightarrow> (failed (Error (typeErrorText js ''trim'')), [call])
                                 | Inr (Some text) \<Rightarrow>
                                     (case parse text of
                                        Inl m \<Rightarrow> (failed (Error m), [call])
                                      | Inr listingData \<Rightarrow>
                                          (\<lparr>status = 200, payload = Listing_payload listingData\<rparr>,
                                           [call]))))))"

section \<open>The application (App.tsx)\<close>

record postStatus =
  loading :: bool
  error :: "string option"
  success :: "string option"

text \<open>
  The state of \<open>App\<close>, one field per \<open>useState\<close> hook (\<open>appError\<close> is the hook
  \<open>error\<close>), and the two parts of \<open>window.location\<close> the component reads: the path and
  the query, the latter as the list of pairs \<open>URLSearchParams\<close> makes of it.
  A listing is the value \<open>generateEbayListing\<close> resolved with.
\<close>

record app =
  files :: "jsfile list"
  personalNote :: string
  isHighQuality :: bool
  listing :: "json option"
  isLoading :: bool
  isConnecting :: bool
  isEbayConnected :: bool
  appError :: "string option"
  postStatus :: postStatus
  location_pathname :: string
  location_search :: "(string \<times> string) list"

definition idle :: postStatus where
  "idle = \<lparr>loading = False, error = None, success = None\<rparr>"

text \<open>
  The result of \<open>postListingToEbay\<close>. \<open>App\<close> reads \<open>result.success\<close> (the field
  \<open>pr_success\<close>) and \<open>result.itemUrl\<close> (\<open>None\<close> for \<open>undefined\<close>); the reason of a
  failure, one of the failures of the spec's taxonomy, is the third field of the spec's
  PublishResult, which \<open>App\<close> never reads.
\<close>

datatype failure =
    InvalidState
  | ExchangeFailed
  | RefreshFailed
  | NotConnected
  | InvalidInput
  | MediaUploadFailed
  | ListingRejected string
  | UpstreamMalformed

record publishResult =
  pr_success :: bool
  itemUrl :: "string option"
  failureReason :: "failure option"

text \<open>
  The functions of \<open>services/ebayService\<close> are parameters of the handlers below. Each
  takes the state \<open>'b\<close> behind the service (the session and the marketplace) and returns
  it with the outcome of the promise: \<open>Inl\<close> the value it rejects with, \<open>Inr\<close> the value it
  resolves with.
\<close>

type_synonym ('a, 'b) service = "'b \<Rightarrow> (thrown + 'a) \<times> 'b"

text \<open>The first effect: \<open>initialize\<close>, which asks \<open>checkEbayConnection\<close>.\<close>

definition initialize :: "(bool, 'b) service \<Rightarrow> app \<times> 'b \<Rightarrow> app \<times> 'b" where
  "initialize checkEbayConnection s =
     (case s of (a, b) \<Rightarrow>
        (case checkEbayConnection b of
           (Inr c, b') \<Rightarrow> (a\<lparr>isEbayConnected := c, isConnecting := False\<rparr>, b')
         | (Inl t, b') \<Rightarrow> (a\<lparr>isEbayConnected := False, isConnecting := False\<rparr>, b')))"

text \<open>
  The second effect. \<open>params.get('code')\<close> is the first value of the key \<open>code\<close>, and
  \<open>if (code)\<close> fails for \<open>null\<close> and for the empty string. The handler itself reads no
  other parameter of the query and passes the code alone. \<open>exchangeCodeForToken\<close> runs
  before the \<open>finally\<close> block replaces the URL by the path alone, so the query of the
  page (\<open>window.location.search\<close>, the \<open>state\<close> parameter included) is still there for
  it to read: the model hands it the query beside the code.
\<close>

definition handleEbayCallback ::
  "(string \<Rightarrow> (string \<times> string) list \<Rightarrow> (unit, 'b) service) \<Rightarrow> app \<times> 'b \<Rightarrow> app \<times> 'b" where
  "handleEbayCallback exchangeCodeForToken s =
     (case s of (a, b) \<Rightarrow>
        if location_pathname a \<noteq> ''/ebay/callback'' then s
        else (case map_of (location_search a) ''code'' of
                None \<Rightarrow> s
              | Some code \<Rightarrow>
                  if code = [] then s
                  else (case exchangeCodeForToken code (location_search a) b of
                          (Inr u, b') \<Rightarrow>
                            (a\<lparr>isEbayConnected := True, isConnecting := False,
                               location_search := []\<rparr>, b')
                        | (Inl t, b') \<Rightarrow>
                            (a\<lparr>appError := Some ''Failed to connect your eBay account. Please try again.'',
                               isConnecting := False, location_search := []\<rparr>, b'))))"

definition handleImagesChange :: "jsfile list \<Rightarrow> app \<Rightarrow> app" where
  "handleImagesChange selectedFiles a =
     a\<lparr>files := selectedFiles, listing := None, appError := None, postStatus := idle\<rparr>"

text \<open>
  \<open>handleEbayConnect\<close>: the URL is where the browser navigates next (\<open>Inr\<close>, beside the
  unchanged state), or the error is shown.
\<close>

definition handleEbayConnect :: "(string, 'b) service \<Rightarrow> app \<times> 'b \<Rightarrow> (app + string) \<times> 'b" where
  "handleEbayConnect getEbayAuthUrl s =
     (case s of (a, b) \<Rightarrow>
        (case getEbayAuthUrl b of
           (Inr url, b') \<Rightarrow> (Inr url, b')
         | (Inl t, b') \<Rightarrow>
             (Inl (a\<lparr>appError := Some ''Could not connect to eBay. Please try again later.''\<rparr>), b')))"

text \<open>
  \<open>handleEbayDisconnect\<close> has no \<open>try\<close>: when \<open>disconnectFromEbay\<close> rejects, the flag is
  not reset and the rejection is the handler's own (the first component, \<open>None\<close> when
  the handler completes).
\<close>

definition handleEbayDisconnect :: "(unit, 'b) service \<Rightarrow> app \<times> 'b \<Rightarrow> thrown option \<times> app \<times> 'b" where
  "handleEbayDisconnect disconnectFromEbay s =
     (case s of (a, b) \<Rightarrow>
        (case disconnectFromEbay b of
           (Inr u, b') \<Rightarrow> (None, a\<lparr>isEbayConnected := False\<rparr>, b')
         | (Inl t, b') \<Rightarrow> (Some t, a, b')))"

text \<open>The template literal \<open>${result.itemUrl}\<close>.\<close>

definition url_text :: "string option \<Rightarrow> string" where
  "url_text u = (case u of Some s \<Rightarrow> s | None \<Rightarrow> ''undefined'')"

text \<open>The status \<open>handlePostToEbay\<close> ends with, from the outcome of \<open>postListingToEbay\<close>.\<close>

definition post_outcome :: "thrown + publishResult \<Rightarrow> postStatus" where
  "post_outcome r =
     (case r of
        Inr result \<Rightarrow>
          if pr_success result
          then \<lparr>loading = False, error = None,
                success = Some (''Successfully posted! View your listing: '' @ url_text (itemUrl result))\<rparr>
          else \<lparr>loading = False, error = Some ''Posting failed for an unknown reason.'',
                success = None\<rparr>
      | Inl (Error m) \<Rightarrow> \<lparr>loading = False, error = Some m, success = None\<rparr>
      | Inl Thrown_value \<Rightarrow> \<lparr>loading = False, error = Some ''Failed to post to eBay.'', success = None\<rparr>)"

definition handlePostToEbay ::
  "(json \<Rightarrow> jsfile list \<Rightarrow> (publishResult, 'b) service) \<Rightarrow> app \<times> 'b \<Rightarrow> app \<times> 'b" where
  "handlePostToEbay postListingToEbay s =
     (case s of (a, b) \<Rightarrow>
        if \<not> truthy (listing a) then s
        else (case postListingToEbay (the (listing a)) (files a) b of
                (r, b') \<Rightarrow> (a\<lparr>postStatus := post_outcome r\<rparr>, b')))"

section \<open>The marketplace service (services/ebayService.ts)\<close>

text \<open>
  \<open>App.tsx\<close> imports \<open>getEbayAuthUrl\<close>, \<open>exchangeCodeForToken\<close>, \<open>checkEbayConnection\<close>,
  \<open>disconnectFromEbay\<close> and \<open>postListingToEbay\<close> from this module, whose source is not
  among the files verified here. The definitions of this section model it from the
  specification (Sections 3 to 7), with the signatures of the calls in \<open>App.tsx\<close>.
\<close>

text \<open>Modelled from the spec: the TokenSet of Section 3, missing from the sources.\<close>

record tokenSet =
  accessToken :: string
  refreshToken :: string
  expiresAt :: nat
  scope :: "string list"

text \<open>
  Modelled from the spec: the requests the service sends to the marketplace (Section 6),
  as the session logs them.
\<close>

datatype net_call =
    Token_call string
  | Refresh_call string
  | Upload_call jsfile
  | Draft_call
  | Offer_call
  | Publish_call

text \<open>
  Modelled from the spec: the session state behind the service, which is missing from
  the sources. It holds the Token Store (one slot), the nonce of the authorization
  round trip in flight, the number of nonces generated, the authorization codes the
  marketplace has issued and not yet exchanged (with the TokenSet each stands for), and
  the network calls made so far.
\<close>

record session =
  tokenStore :: "tokenSet option"
  nonce :: "string option"
  issued :: nat
  redeemable :: "(string \<times> tokenSet) list"
  calls :: "net_call list"

text \<open>
  Modelled from the spec: the answer of an endpoint of the Sell APIs (Section 6) to a
  request made with an access token: it accepts the request (with the identifier it
  created), reports the token expired, or declines with a message.
\<close>

datatype 'a reply = Accepted 'a | Token_expired | Declined string

text \<open>
  Modelled from the spec: the listing draft of step 2 of the publish protocol
  (Section 4.4): the four fields of the listing and the references of the uploaded images.
\<close>

record draft =
  draft_title :: "json option"
  draft_category :: "json option"
  draft_specifics :: "json option"
  draft_description :: "json option"
  draft_images :: "string list"

text \<open>
  Modelled from the spec: the marketplace and the configuration of the service
  (Sections 4.1 and 6). They are outside the repository, so their answers are taken as
  given: the time and the safety margin of the expiry test, the parts of the
  authorization URL, the nonces generated, the refresh endpoint (\<open>None\<close> for a refresh
  token that is invalid or revoked) and the four endpoints of the Sell APIs.
\<close>

record marketplace =
  clock :: nat
  safety_margin :: nat
  authorization_endpoint :: string
  client_id :: string
  redirect_uri :: string
  scopes :: string
  nonce_source :: "nat \<Rightarrow> string"
  refresh_endpoint :: "string \<Rightarrow> tokenSet option"
  media_endpoint :: "string \<Rightarrow> jsfile \<Rightarrow> string reply"
  inventory_endpoint :: "string \<Rightarrow> draft \<Rightarrow> string reply"
  offer_endpoint :: "string \<Rightarrow> string \<Rightarrow> string reply"
  publish_endpoint :: "string \<Rightarrow> string \<Rightarrow> string reply"
  item_url :: "string \<Rightarrow> string"

text \<open>
  Modelled from the spec: \<open>beginAuthorization\<close> (Section 4.1), missing from the sources.
  It generates a fresh nonce, records it for the session (replacing the nonce of an
  earlier call) and returns the authorization URL with the client id, the scopes, the
  redirect URI and the nonce.
\<close>

definition beginAuthorization :: "marketplace \<Rightarrow> session \<Rightarrow> string \<times> session" where
  "beginAuthorization mp w =
     (let n = nonce_source mp (issued w)
      in (authorization_endpoint mp @ ''?client_id='' @ client_id mp @ ''&scope='' @ scopes mp
            @ ''&redirect_uri='' @ redirect_uri mp @ ''&state='' @ n,
          w\<lparr>nonce := Some n, issued := Suc (issued w)\<rparr>))"

text \<open>
  Modelled from the spec: the marketplace's token endpoint, missing from the sources. A
  code is exchanged at most once: the exchange removes it from the codes still to be
  exchanged, and an unknown or used code is rejected.
\<close>

definition token_endpoint :: "string \<Rightarrow> session \<Rightarrow> tokenSet option \<times> session" where
  "token_endpoint code w =
     (case map_of (redeemable w) code of
        None \<Rightarrow> (None, w\<lparr>calls := calls w @ [Token_call code]\<rparr>)
      | Some ts \<Rightarrow>
          (Some ts, w\<lparr>redeemable := filter (\<lambda>ct. fst ct \<noteq> code) (redeemable w),
                      calls := calls w @ [Token_call code]\<rparr>))"

text \<open>
  Modelled from the spec: \<open>completeAuthorization(code, state)\<close> (Section 4.1), missing
  from the sources. It fails with \<open>InvalidState\<close> if \<open>state\<close> does not match the nonce
  issued for this session, before anything else is done; otherwise it exchanges the
  code for a TokenSet, fails with \<open>ExchangeFailed\<close> when the marketplace rejects the code,
  and on success stores the TokenSet and returns it.
\<close>

definition completeAuthorization ::
  "string \<Rightarrow> string \<Rightarrow> session \<Rightarrow> (failure + tokenSet) \<times> session" where
  "completeAuthorization code state w =
     (if nonce w \<noteq> Some state then (Inl InvalidState, w)
      else (case token_endpoint code w of
              (None, w') \<Rightarrow> (Inl ExchangeFailed, w')
            | (Some ts, w') \<Rightarrow> (Inr ts, w'\<lparr>tokenStore := Some ts\<rparr>)))"

text \<open>
  Modelled from the spec: \<open>isConnected\<close> (Section 4.2), missing from the sources: a
  local test of the Token Store, without a network call.
\<close>

definition isConnected :: "session \<Rightarrow> bool" where
  "isConnected w \<longleftrightarrow> tokenStore w \<noteq> None"

text \<open>
  Modelled from the spec: \<open>disconnect\<close> (Section 4.3), missing from the sources: it
  clears the Token Store unconditionally.
\<close>

definition disconnect :: "session \<Rightarrow> session" where
  "disconnect w = w\<lparr>tokenStore := None\<rparr>"

text \<open>
  Modelled from the spec: \<open>refresh\<close> (Section 4.1), missing from the sources. \<open>None\<close> is
  \<open>RefreshFailed\<close>: the refresh token is invalid or revoked.
\<close>

definition refresh :: "marketplace \<Rightarrow> tokenSet \<Rightarrow> session \<Rightarrow> tokenSet option \<times> session" where
  "refresh mp ts w =
     (refresh_endpoint mp (refreshToken ts),
      w\<lparr>calls := calls w @ [Refresh_call (refreshToken ts)]\<rparr>)"

text \<open>
  Modelled from the spec: the expiry test of Section 4.1: \<open>expiresAt\<close> has passed or is
  within the safety margin.
\<close>

definition expiring :: "marketplace \<Rightarrow> tokenSet \<Rightarrow> bool" where
  "expiring mp ts \<longleftrightarrow> expiresAt ts \<le> clock mp + safety_margin mp"

text \<open>
  Modelled from the spec: one attempt of a step of the publish protocol (Section 4.4)
  with a given TokenSet, missing from the sources. \<open>expiresAt\<close> is checked before use: a
  token that has expired, or is within the safety margin, is not sent.
\<close>

definition attempt ::
  "marketplace \<Rightarrow> net_call \<Rightarrow> (string \<Rightarrow> 'a reply) \<Rightarrow> tokenSet \<Rightarrow> session \<Rightarrow> 'a reply \<times> session" where
  "attempt mp call request ts w =
     (if expiring mp ts then (Token_expired, w)
      else (request (accessToken ts), w\<lparr>calls := calls w @ [call]\<rparr>))"

text \<open>
  Modelled from the spec: a step of the publish protocol with its silent
  refresh-and-retry (Section 4.4), missing from the sources. The flag beside the session
  says whether this publish call has already refreshed. When the token is expired and
  no refresh has been made, the step refreshes once and is retried; when the refresh
  fails the step fails with \<open>NotConnected\<close> and the Token Store is cleared. A step the
  marketplace declines, or whose token is expired after the one refresh, fails with the
  failure of that step.
\<close>

definition step ::
  "marketplace \<Rightarrow> net_call \<Rightarrow> (string \<Rightarrow> 'a reply) \<Rightarrow> (string \<Rightarrow> failure) \<Rightarrow> session \<times> bool
     \<Rightarrow> (failure + 'a) \<times> session \<times> bool" where
  "step mp call request declined s =
     (case s of (w, refreshed) \<Rightarrow>
        (case tokenStore w of
           None \<Rightarrow> (Inl NotConnected, s)
         | Some ts \<Rightarrow>
             (case attempt mp call request ts w of
                (Accepted x, w1) \<Rightarrow> (Inr x, w1, refreshed)
              | (Declined m, w1) \<Rightarrow> (Inl (declined m), w1, refreshed)
              | (Token_expired, w1) \<Rightarrow>
                  if refreshed then (Inl (declined ''token expired''), w1, refreshed)
                  else (case refresh mp ts w1 of
                          (None, w2) \<Rightarrow> (Inl NotConnected, w2\<lparr>tokenStore := None\<rparr>, True)
                        | (Some ts', w2) \<Rightarrow>
                            (case attempt mp call request ts' (w2\<lparr>tokenStore := Some ts'\<rparr>) of
                               (Accepted x, w3) \<Rightarrow> (Inr x, w3, True)
                             | (Declined m, w3) \<Rightarrow> (Inl (declined m), w3, True)
                             | (Token_expired, w3) \<Rightarrow>
                                 (Inl (declined ''token expired''), w3, True))))))"

text \<open>
  Modelled from the spec: step 1 of the publish protocol, missing from the sources. The
  images are uploaded in order; the first upload that fails aborts the rest.
\<close>

fun upload_all ::
  "marketplace \<Rightarrow> jsfile list \<Rightarrow> session \<times> bool \<Rightarrow> (failure + string list) \<times> session \<times> bool" where
  "upload_all mp [] s = (Inr [], s)"
| "upload_all mp (img # imgs) s =
     (case step mp (Upload_call img) (\<lambda>tok. media_endpoint mp tok img) (\<lambda>m. MediaUploadFailed) s of
        (Inl f, s1) \<Rightarrow> (Inl f, s1)
      | (Inr url, s1) \<Rightarrow>
          (case upload_all mp imgs s1 of
             (Inl f, s2) \<Rightarrow> (Inl f, s2)
           | (Inr urls, s2) \<Rightarrow> (Inr (url # urls), s2)))"

text \<open>
  Modelled from the spec: the draft construction of step 2 (Section 4.4), missing from
  the sources.
\<close>

definition make_draft :: "json \<Rightarrow> string list \<Rightarrow> draft" where
  "make_draft l refs =
     \<lparr>draft_title = property l ''title'', draft_category = property l ''category'',
      draft_specifics = property l ''itemSpecifics'', draft_description = property l ''description'',
      draft_images = refs\<rparr>"

text \<open>Modelled from the spec: the PublishResult of a failure (Section 3).\<close>

definition failure_result :: "failure \<Rightarrow> publishResult" where
  "failure_result f = \<lparr>pr_success = False, itemUrl = None, failureReason = Some f\<rparr>"

text \<open>
  Modelled from the spec: steps 2 to 4 of the publish protocol, missing from the
  sources: the draft, the offer and its activation, each using the identifier the step
  before it returned.
\<close>

definition list_item ::
  "marketplace \<Rightarrow> json \<Rightarrow> string list \<Rightarrow> session \<times> bool \<Rightarrow> (failure + string) \<times> session \<times> bool" where
  "list_item mp l refs s =
     (case step mp Draft_call (\<lambda>tok. inventory_endpoint mp tok (make_draft l refs)) ListingRejected s of
        (Inl f, s1) \<Rightarrow> (Inl f, s1)
      | (Inr sku, s1) \<Rightarrow>
          (case step mp Offer_call (\<lambda>tok. offer_endpoint mp tok sku) ListingRejected s1 of
             (Inl f, s2) \<Rightarrow> (Inl f, s2)
           | (Inr offer, s2) \<Rightarrow>
               step mp Publish_call (\<lambda>tok. publish_endpoint mp tok offer) ListingRejected s2))"

text \<open>
  Modelled from the spec: \<open>publish\<close> (Section 4.4), missing from the sources. The
  preconditions fail fast, before any network call: the images (non-empty, within the
  count, size and type bounds of the uploader) and the connection. The spec gives no
  order between the two tests; the images are tested first here.
\<close>

definition publish :: "marketplace \<Rightarrow> json \<Rightarrow> jsfile list \<Rightarrow> session \<Rightarrow> publishResult \<times> session" where
  "publish mp l images w =
     (if images = [] \<or> \<not> valid_selection images then (failure_result InvalidInput, w)
      else if \<not> isConnected w then (failure_result NotConnected, w)
      else (case upload_all mp images (w, False) of
              (Inl f, w1, r1) \<Rightarrow> (failure_result f, w1)
            | (Inr refs, s1) \<Rightarrow>
                (case list_item mp l refs s1 of
                   (Inl f, w2, r2) \<Rightarrow> (failure_result f, w2)
                 | (Inr item, w2, r2) \<Rightarrow>
                     (\<lparr>pr_success = True, itemUrl = Some (item_url mp item), failureReason = None\<rparr>,
                      w2))))"

text \<open>
  Modelled from the spec: the name of a failure of the taxonomy (Section 7), the
  message of the \<open>Error\<close> a service function throws for it.
\<close>

definition failure_name :: "failure \<Rightarrow> string" where
  "failure_name f =
     (case f of
        InvalidState \<Rightarrow> ''InvalidState''
      | ExchangeFailed \<Rightarrow> ''ExchangeFailed''
      | RefreshFailed \<Rightarrow> ''RefreshFailed''
      | NotConnected \<Rightarrow> ''NotConnected''
      | InvalidInput \<Rightarrow> ''InvalidInput''
      | MediaUploadFailed \<Rightarrow> ''MediaUploadFailed''
      | ListingRejected m \<Rightarrow> m
      | UpstreamMalformed \<Rightarrow> ''UpstreamMalformed'')"

text \<open>
  Modelled from the spec: the five functions \<open>App.tsx\<close> imports from the service,
  missing from the sources, as the operations above (Section 6, the UI-facing surface).
  \<open>exchangeCodeForToken\<close> is \<open>completeAuthorization\<close> with the code it is passed and the
  \<open>state\<close> parameter of the callback's query; a callback without that parameter
  matches no nonce. A failure of the exchange is thrown; \<open>publish\<close> returns its
  PublishResult, failure included.
\<close>

definition getEbayAuthUrl :: "marketplace \<Rightarrow> (string, session) service" where
  "getEbayAuthUrl mp w = (case beginAuthorization mp w of (url, w') \<Rightarrow> (Inr url, w'))"

definition exchangeCodeForToken :: "string \<Rightarrow> (string \<times> string) list \<Rightarrow> (unit, session) service" where
  "exchangeCodeForToken code search w =
     (case map_of search ''state'' of
        None \<Rightarrow> (Inl (Error (failure_name InvalidState)), w)
      | Some state \<Rightarrow>
          (case completeAuthorization code state w of
             (Inl f, w') \<Rightarrow> (Inl (Error (failure_name f)), w')
           | (Inr ts, w') \<Rightarrow> (Inr (), w')))"

definition checkEbayConnection :: "(bool, session) service" where
  "checkEbayConnection w = (Inr (isConnected w), w)"

definition disconnectFromEbay :: "(unit, session) service" where
  "disconnectFromEbay w = (Inr (), disconnect w)"

definition postListingToEbay :: "marketplace \<Rightarrow> json \<Rightarrow> jsfile list \<Rightarrow> (publishResult, session) service" where
  "postListingToEbay mp l images w = (case publish mp l images w of (r, w') \<Rightarrow> (Inr r, w'))"

text \<open>
  Modelled from the spec: the operations of the service that change the session, for
  statements about every sequence of them.
\<close>

datatype operation =
    Begin
  | Complete string string
  | Disconnect
  | Publish json "jsfile list"

fun perform :: "marketplace \<Rightarrow> operation \<Rightarrow> session \<Rightarrow> session" where
  "perform mp Begin w = snd (beginAuthorization mp w)"
| "perform mp (Complete code state) w = snd (completeAuthorization code state w)"
| "perform mp Disconnect w = disconnect w"
| "perform mp (Publish l images) w = snd (publish mp l images w)"

text \<open>
  The network calls a run added to the log, and the calls among them that are a
  refresh the marketplace refused.
\<close>

definition new_calls :: "session \<Rightarrow> session \<Rightarrow> net_call list" where
  "new_calls w w' = drop (length (calls w)) (calls w')"

definition failed_refresh :: "marketplace \<Rightarrow> net_call \<Rightarrow> bool" where
  "failed_refresh mp c = (case c of Refresh_call rt \<Rightarrow> refresh_endpoint mp rt = None | _ \<Rightarrow> False)"

section \<open>Notions used in the statements\<close>

text \<open>
  What the claim about the handler calls a request without image data: \<open>imageParts\<close>
  is missing, is not an array, or is an empty array.
\<close>

definition no_image_parts :: "json \<Rightarrow> bool" where
  "no_image_parts body \<longleftrightarrow>
     (case property body ''imageParts'' of Some (JArr (v # vs)) \<Rightarrow> False | _ \<Rightarrow> True)"

text \<open>
  A run from \<open>w\<close> to \<open>w'\<close> that ended with the failure \<open>e\<close> (\<open>None\<close> when it did not
  fail) only added calls to the log, and if one of them is a refresh the marketplace
  refused, the run failed with \<open>NotConnected\<close> and left the Token Store empty.
\<close>

definition refresh_safe :: "marketplace \<Rightarrow> session \<Rightarrow> failure option \<Rightarrow> session \<Rightarrow> bool" where
  "refresh_safe mp w e w' \<longleftrightarrow>
     prefix (calls w) (calls w') \<and>
     (list_ex (failed_refresh mp) (new_calls w w') \<longrightarrow> e = Some NotConnected \<and> tokenStore w' = None)"

definition failure_of :: "failure + 'a \<Rightarrow> failure option" where
  "failure_of r = (case r of Inl e \<Rightarrow> Some e | Inr x \<Rightarrow> None)"

section \<open>Example inputs\<close>

definition photo :: jsfile where
  "photo = \<lparr>file_name = ''front.jpg'', file_type = ''image/jpeg'', file_size = 204800\<rparr>"

definition manual :: jsfile where
  "manual = \<lparr>file_name = ''manual.pdf'', file_type = ''application/pdf'', file_size = 1024\<rparr>"

definition video_still :: jsfile where
  "video_still = \<lparr>file_name = ''still.png'', file_type = ''image/png'', file_size = 5242881\<rparr>"

definition uploader0 :: uploader where
  "uploader0 = \<lparr>currentFiles = [photo], previews = [0], dragActive = False, uploadError = None,
                selectedImageIndex = 0\<rparr>"

definition blobs0 :: blob_registry where
  "blobs0 = \<lparr>next_blob = 1, live_blobs = [0]\<rparr>"

definition app0 :: app where
  "app0 = \<lparr>files = [photo], personalNote = [], isHighQuality = False, listing = None,
           isLoading = False, isConnecting = False, isEbayConnected = False, appError = None,
           postStatus = idle, location_pathname = ''/'', location_search = []\<rparr>"

definition engine0 :: engine where
  "engine0 = \<lparr>typeErrorText = (\<lambda>k. ''Cannot read properties of null (reading '' @ k @ '')''),
              toText = (\<lambda>v. ''[object Object]'')\<rparr>"

definition good_listing :: json where
  "good_listing =
     JObj [(''title'', JStr ''Vintage camera''),
           (''category'', JArr [JStr ''Cameras > Film Cameras'']),
           (''itemSpecifics'', JArr [JObj [(''name'', JStr ''Brand''), (''value'', JStr ''Canon'')]]),
           (''description'', JStr ''<p>Works well.</p>'')]"

definition untitled_listing :: json where
  "untitled_listing =
     JObj [(''category'', JArr [JStr ''Cameras > Film Cameras'']),
           (''itemSpecifics'', JArr []),
           (''description'', JStr ''<p>Works well.</p>'')]"

definition backend_sends :: "json \<Rightarrow> (string \<times> string) list \<times> string \<times> bool \<Rightarrow> fetch_outcome" where
  "backend_sends d request = Fetch_resolves \<lparr>resp_ok = True, resp_status = 200, resp_json = Inr d\<rparr>"

definition model_replies :: "ai_call \<Rightarrow> thrown + string option" where
  "model_replies call = Inr (Some ''{}'')"

definition parse_as :: "json \<Rightarrow> string \<Rightarrow> string + json" where
  "parse_as d text = Inr d"

definition get_request :: vercel_request where
  "get_request = \<lparr>req_method = ''GET'', req_body = None\<rparr>"

definition post_without_body :: vercel_request where
  "post_without_body = \<lparr>req_method = ''POST'', req_body = None\<rparr>"

definition post_without_images :: vercel_request where
  "post_without_images =
     \<lparr>req_method = ''POST'', req_body = Some (JObj [(''personalNote'', JStr ''boxed'')])\<rparr>"

definition app_listed :: app where
  "app_listed = app0\<lparr>listing := Some good_listing, isEbayConnected := True\<rparr>"

definition brand_missing :: publishResult where
  "brand_missing =
     \<lparr>pr_success = False, itemUrl = None,
      failureReason = Some (ListingRejected ''The item specific Brand is missing.'')\<rparr>"

definition declining_service :: "json \<Rightarrow> jsfile list \<Rightarrow> (publishResult, unit) service" where
  "declining_service l images b = (Inr brand_missing, b)"

definition throwing_service :: "json \<Rightarrow> jsfile list \<Rightarrow> (publishResult, unit) service" where
  "throwing_service l images b = (Inl (Error ''Media upload failed.''), b)"

definition value_throwing_service :: "json \<Rightarrow> jsfile list \<Rightarrow> (publishResult, unit) service" where
  "value_throwing_service l images b = (Inl Thrown_value, b)"

definition app_unpictured :: app where
  "app_unpictured = app_listed\<lparr>files := []\<rparr>"

definition tokens0 :: tokenSet where
  "tokens0 = \<lparr>accessToken = ''access-0'', refreshToken = ''refresh-0'', expiresAt = 3600,
               scope = [''sell.inventory'']\<rparr>"

definition market0 :: marketplace where
  "market0 =
     \<lparr>clock = 100, safety_margin = 60,
      authorization_endpoint = ''https://auth.example/authorize'',
      client_id = ''listing-app'',
      redirect_uri = ''https://app.example/ebay/callback'',
      scopes = ''sell.inventory'',
      nonce_source = (\<lambda>n. replicate (Suc n) (CHR ''n'')),
      refresh_endpoint = (\<lambda>rt. None),
      media_endpoint = (\<lambda>tok img. Accepted (''https://img.example/'' @ file_name img)),
      inventory_endpoint = (\<lambda>tok d. Accepted ''sku-1''),
      offer_endpoint = (\<lambda>tok sku. Accepted ''offer-1''),
      publish_endpoint = (\<lambda>tok offer. Accepted ''123456''),
      item_url = (\<lambda>item. ''https://market.example/itm/'' @ item)\<rparr>"

definition session0 :: session where
  "session0 = \<lparr>tokenStore = None, nonce = None, issued = 0,
                redeemable = [(''code-1'', tokens0)], calls = []\<rparr>"

definition session1 :: session where
  "session1 = snd (beginAuthorization market0 session0)"

definition forged_callback :: app where
  "forged_callback =
     app0\<lparr>location_pathname := ''/ebay/callback'',
          location_search := [(''code'', ''code-1''), (''state'', ''forged'')]\<rparr>"

definition genuine_callback :: app where
  "genuine_callback =
     app0\<lparr>location_pathname := ''/ebay/callback'',
          location_search := [(''code'', ''code-1''), (''state'', ''n'')]\<rparr>"

definition connected_session :: session where
  "connected_session = session0\<lparr>tokenStore := Some tokens0\<rparr>"

definition stale_tokens :: tokenSet where
  "stale_tokens = tokens0\<lparr>expiresAt := 50\<rparr>"

definition stale_session :: session where
  "stale_session = session0\<lparr>tokenStore := Some stale_tokens\<rparr>"

definition market1 :: marketplace where
  "market1 = market0\<lparr>refresh_endpoint :=
                (\<lambda>rt. if rt = ''refresh-0'' then Some tokens0 else None)\<rparr>"

section \<open>Properties of the image uploader\<close>

lemma scanFiles_all_valid:
  "list_all valid_file fs \<Longrightarrow>
     \<exists>pv reg'. scanFiles fs v p reg = (Inr (v @ fs, pv), reg') \<and> length pv = length p + length fs"
proof (induction fs arbitrary: v p reg)
  case Nil
  then show ?case by simp
next
  case (Cons f fs)
  from Cons.prems have f: "valid_file f" and rest: "list_all valid_file fs" by simp_all
  obtain u reg1 where c: "createObjectURL f reg = (u, reg1)" by (cases "createObjectURL f reg")
  from Cons.IH [OF rest, of "v @ [f]" "p @ [u]" reg1]
  obtain pv reg' where "scanFiles fs (v @ [f]) (p @ [u]) reg1 = (Inr ((v @ [f]) @ fs, pv), reg')"
    and "length pv = length (p @ [u]) + length fs" by blast
  with f c show ?case
    by (simp add: valid_file_def MAX_SIZE_BYTES_def MAX_SIZE_MB_def)
qed

lemma scanFiles_some_invalid:
  "\<not> list_all valid_file fs \<Longrightarrow> \<exists>m reg'. scanFiles fs v p reg = (Inl m, reg')"
proof (induction fs arbitrary: v p reg)
  case Nil
  then show ?case by simp
next
  case (Cons f fs)
  show ?case
  proof (cases "valid_file f")
    case True
    with Cons.prems have "\<not> list_all valid_file fs" by simp
    from Cons.IH [OF this] True show ?thesis
      by (simp add: valid_file_def MAX_SIZE_BYTES_def MAX_SIZE_MB_def split: prod.splits)
  next
    case False
    then show ?thesis
      by (auto simp add: valid_file_def MAX_SIZE_BYTES_def MAX_SIZE_MB_def)
  qed
qed

lemma processFiles_valid:
  assumes "valid_selection fs"
  shows "\<exists>pv reg'. processFiles onChange (Some fs) (u, reg, p) =
           (u\<lparr>uploadError := None, currentFiles := fs, previews := pv, selectedImageIndex := 0\<rparr>,
            reg', onChange fs p)"
proof -
  from assms have len: "\<not> length fs > MAX_FILES" and ok: "list_all valid_file fs"
    by (simp_all add: valid_selection_def MAX_FILES_def)
  from scanFiles_all_valid [OF ok, of "[]" "[]" "fold revokeObjectURL (previews u) reg"]
  obtain pv reg' where "scanFiles fs [] [] (fold revokeObjectURL (previews u) reg) = (Inr (fs, pv), reg')"
    by auto
  with len have "processFiles onChange (Some fs) (u, reg, p) =
           (u\<lparr>uploadError := None, currentFiles := fs, previews := pv, selectedImageIndex := 0\<rparr>,
            reg', onChange fs p)"
    by (simp add: processFiles_def Let_def)
  then show ?thesis by blast
qed

lemma processFiles_invalid:
  assumes "\<not> valid_selection fs"
  shows "\<exists>m reg'. processFiles onChange (Some fs) (u, reg, p) =
           (u\<lparr>uploadError := Some m, currentFiles := [], previews := []\<rparr>, reg', onChange [] p)"
proof (cases "length fs > MAX_FILES")
  case True
  then have "processFiles onChange (Some fs) (u, reg, p) =
           (u\<lparr>uploadError := Some too_many_message, currentFiles := [], previews := []\<rparr>,
            fold revokeObjectURL (previews u) reg, onChange [] p)"
    by (simp add: processFiles_def Let_def reject_selection_def)
  then show ?thesis by blast
next
  case False
  with assms have "\<not> list_all valid_file fs" by (simp add: valid_selection_def MAX_FILES_def)
  from scanFiles_some_invalid [OF this, of "[]" "[]" "fold revokeObjectURL (previews u) reg"]
  obtain m reg' where "scanFiles fs [] [] (fold revokeObjectURL (previews u) reg) = (Inl m, reg')"
    by auto
  with False have "processFiles onChange (Some fs) (u, reg, p) =
           (u\<lparr>uploadError := Some m, currentFiles := [], previews := []\<rparr>, reg', onChange [] p)"
    by (simp add: processFiles_def Let_def reject_selection_def)
  then show ?thesis by blast
qed

text \<open>
  Claim C6. A selection offered to the uploader is accepted exactly when it has at
  most 8 files and every file has an \<open>image/\<close> mime type and at most 5 MB
  (\<open>5 * 1024 * 1024\<close> bytes): then the files are kept as offered, without an error.
  Every other selection is rejected with an error message and leaves no accepted file.
\<close>

theorem processFiles_accepts_iff_valid:
  assumes "processFiles onImagesChange (Some fs) (u, reg, p) = (u', reg', p')"
  shows "(valid_selection fs \<longrightarrow>
            uploadError u' = None \<and> currentFiles u' = fs \<and> p' = onImagesChange fs p) \<and>
         (\<not> valid_selection fs \<longrightarrow>
            uploadError u' \<noteq> None \<and> currentFiles u' = [] \<and> p' = onImagesChange [] p)"
proof (cases "valid_selection fs")
  case True
  from processFiles_valid [OF True, of onImagesChange u reg p] assms True show ?thesis by auto
next
  case False
  from processFiles_invalid [OF False, of onImagesChange u reg p] assms False show ?thesis by auto
qed

lemma photo_valid: "valid_file photo"
  by (simp add: valid_file_def photo_def)

lemma manual_invalid: "\<not> valid_file manual"
  by (simp add: valid_file_def manual_def)

lemma video_still_invalid: "\<not> valid_file video_still"
  by (simp add: valid_file_def video_still_def)

theorem processFiles_accepts_iff_valid_witness:
  "valid_selection [photo, photo] \<and>
   currentFiles (fst (processFiles handleImagesChange (Some [photo, photo]) (uploader0, blobs0, app0)))
     = [photo, photo] \<and>
   \<not> valid_selection [photo, video_still] \<and>
   currentFiles (fst (processFiles handleImagesChange (Some [photo, video_still]) (uploader0, blobs0, app0)))
     = [] \<and>
   uploadError (fst (processFiles handleImagesChange (Some [photo, video_still]) (uploader0, blobs0, app0)))
     \<noteq> None"
proof -
  obtain u1 r1 p1 where e1:
    "processFiles handleImagesChange (Some [photo, photo]) (uploader0, blobs0, app0) = (u1, r1, p1)"
    by (metis prod_cases3)
  obtain u2 r2 p2 where e2:
    "processFiles handleImagesChange (Some [photo, video_still]) (uploader0, blobs0, app0) = (u2, r2, p2)"
    by (metis prod_cases3)
  have v1: "valid_selection [photo, photo]"
    by (simp add: valid_selection_def photo_valid)
  have v2: "\<not> valid_selection [photo, video_still]"
    by (simp add: valid_selection_def video_still_invalid)
  from processFiles_accepts_iff_valid [OF e1] processFiles_accepts_iff_valid [OF e2] v1 v2
  show ?thesis by (simp add: e1 e2)
qed

text \<open>
  Claim C9. Validation is all-or-nothing over a batch: when the selection offered has
  more than 8 files or holds a file of the wrong type or over the size bound, whatever
  the uploader held before and whatever valid files precede the bad one in the batch,
  the accepted files and the previews become empty and the application is told the
  selection is empty (which also drops its listing).
\<close>

theorem processFiles_all_or_nothing:
  assumes "length fs > 8 \<or> (\<exists>f \<in> set fs. \<not> valid_file f)"
    and "processFiles handleImagesChange (Some fs) (u, reg, a) = (u', reg', a')"
  shows "currentFiles u' = [] \<and> previews u' = [] \<and> files a' = [] \<and> listing a' = None"
proof -
  from assms(1) have "\<not> valid_selection fs"
    by (auto simp add: valid_selection_def list_all_iff)
  from processFiles_invalid [OF this, of handleImagesChange u reg a] assms(2)
  show ?thesis by (auto simp add: handleImagesChange_def)
qed

theorem processFiles_all_or_nothing_witness:
  "currentFiles uploader0 = [photo] \<and> valid_file photo \<and> \<not> valid_file manual \<and>
   currentFiles (fst (processFiles handleImagesChange (Some [photo, manual]) (uploader0, blobs0, app0)))
     = [] \<and>
   files (snd (snd (processFiles handleImagesChange (Some [photo, manual]) (uploader0, blobs0, app0))))
     = []"
proof -
  obtain u1 r1 p1 where e1:
    "processFiles handleImagesChange (Some [photo, manual]) (uploader0, blobs0, app0) = (u1, r1, p1)"
    by (metis prod_cases3)
  have bad: "length [photo, manual] > 8 \<or> (\<exists>f \<in> set [photo, manual]. \<not> valid_file f)"
    by (simp add: manual_invalid)
  have before: "currentFiles uploader0 = [photo]"
    by (simp add: uploader0_def)
  from processFiles_all_or_nothing [OF bad e1] photo_valid manual_invalid before
  show ?thesis by (simp add: e1)
qed

section \<open>Properties of the listing-generation client\<close>

lemma truthy_present: "truthy v \<Longrightarrow> v \<noteq> None"
  by (cases v) simp_all

lemma non_empty_array:
  "isArray v \<Longrightarrow> array_length v \<noteq> 0 \<Longrightarrow> \<exists>c cs. v = Some (JArr (c # cs))"
  by (cases v rule: isArray.cases) (auto simp add: neq_Nil_conv)

lemma not_malformed_well_formed: "\<not> malformed d \<Longrightarrow> well_formed_listing d"
  unfolding malformed_def well_formed_listing_def
  using non_empty_array [of "property d ''category''"]
  by (auto dest: truthy_present)

lemma generateEbayListing_Inr:
  assumes "generateEbayListing js fetch imageParts pnote hq = Inr d"
  shows "\<not> malformed d \<and> d \<noteq> JNull \<and>
         (\<exists>r. fetch (imageParts, pnote, hq) = Fetch_resolves r \<and> resp_ok r \<and> resp_json r = Inr d)"
  using assms unfolding generateEbayListing_def
  by (auto split: fetch_outcome.splits if_splits sum.splits json.splits)

text \<open>
  Claim C5. \<open>generateEbayListing\<close> returns a value only when it is the JSON the backend
  sent with an OK status and that value has a \<open>title\<close>, a \<open>category\<close> that is a
  non-empty array, \<open>itemSpecifics\<close> and a \<open>description\<close>. Whenever the backend's JSON
  lacks one of the four, the call is rejected with an error and returns nothing.
\<close>

theorem generateEbayListing_validates:
  "(generateEbayListing js fetch imageParts pnote hq = Inr d \<longrightarrow>
      well_formed_listing d \<and>
      (\<exists>r. fetch (imageParts, pnote, hq) = Fetch_resolves r \<and> resp_ok r \<and> resp_json r = Inr d)) \<and>
   (fetch (imageParts, pnote, hq) = Fetch_resolves r' \<and> resp_json r' = Inr d' \<and>
      \<not> well_formed_listing d' \<longrightarrow>
      (\<exists>m. generateEbayListing js fetch imageParts pnote hq = Inl m))"
proof (intro conjI impI)
  assume a: "generateEbayListing js fetch imageParts pnote hq = Inr d"
  from generateEbayListing_Inr [OF a] show "well_formed_listing d"
    by (simp add: not_malformed_well_formed)
  from generateEbayListing_Inr [OF a]
  show "\<exists>r. fetch (imageParts, pnote, hq) = Fetch_resolves r \<and> resp_ok r \<and> resp_json r = Inr d"
    by simp
next
  assume b: "fetch (imageParts, pnote, hq) = Fetch_resolves r' \<and> resp_json r' = Inr d' \<and>
      \<not> well_formed_listing d'"
  show "\<exists>m. generateEbayListing js fetch imageParts pnote hq = Inl m"
  proof (cases "generateEbayListing js fetch imageParts pnote hq")
    case (Inl m)
    then show ?thesis by blast
  next
    case (Inr d)
    from generateEbayListing_Inr [OF Inr] b have "d = d'" by auto
    with generateEbayListing_Inr [OF Inr] b show ?thesis
      by (auto dest: not_malformed_well_formed)
  qed
qed

lemma untitled_listing_ill_formed: "\<not> well_formed_listing untitled_listing"
  by (simp add: well_formed_listing_def untitled_listing_def)

lemma good_listing_returned:
  "generateEbayListing engine0 (backend_sends good_listing) [] [] False = Inr good_listing"
  by (simp add: generateEbayListing_def backend_sends_def malformed_def good_listing_def)

theorem generateEbayListing_validates_witness:
  "generateEbayListing engine0 (backend_sends good_listing) [] [] False = Inr good_listing \<and>
   well_formed_listing good_listing \<and>
   \<not> well_formed_listing untitled_listing \<and>
   generateEbayListing engine0 (backend_sends untitled_listing) [] [] False =
     Inl ''Failed to generate listing. Details: Received malformed data from the backend.''"
proof -
  have sent: "backend_sends untitled_listing ([], [], False) =
      Fetch_resolves \<lparr>resp_ok = True, resp_status = 200, resp_json = Inr untitled_listing\<rparr>"
    by (simp add: backend_sends_def)
  from generateEbayListing_validates
    [of engine0 "backend_sends untitled_listing" "[]" "[]" False untitled_listing
        "\<lparr>resp_ok = True, resp_status = 200, resp_json = Inr untitled_listing\<rparr>" untitled_listing]
    sent untitled_listing_ill_formed
  obtain m where m: "generateEbayListing engine0 (backend_sends untitled_listing) [] [] False = Inl m"
    by auto
  have "generateEbayListing engine0 (backend_sends untitled_listing) [] [] False =
     Inl ''Failed to generate listing. Details: Received malformed data from the backend.''"
    by (simp add: generateEbayListing_def backend_sends_def malformed_def untitled_listing_def
        rethrow_def)
  moreover from generateEbayListing_validates
    [where js = engine0 and fetch = "backend_sends good_listing" and imageParts = "[]"
       and pnote = "[]" and hq = False and d = good_listing, THEN conjunct1]
    good_listing_returned
  have "well_formed_listing good_listing" by simp
  ultimately show ?thesis
    using m good_listing_returned untitled_listing_ill_formed by simp
qed

section \<open>Properties of the listing-generation handler\<close>

lemma no_image_parts_test:
  "no_image_parts body \<longleftrightarrow>
     \<not> truthy (property body ''imageParts'') \<or> \<not> isArray (property body ''imageParts'') \<or>
     array_length (property body ''imageParts'') = 0"
proof (cases "property body ''imageParts''")
  case None
  then show ?thesis by (simp add: no_image_parts_def)
next
  case (Some v)
  then show ?thesis
    by (cases v) (auto simp add: no_image_parts_def split: list.splits)
qed

text \<open>
  Claim C10, amended. A request whose method is not \<open>POST\<close> is answered with status
  405, and a \<open>POST\<close> request that has a body (neither \<open>undefined\<close> nor \<open>null\<close>) in
  which \<open>imageParts\<close> is missing, is not an array or is an empty array is answered with
  status 400; in both cases the AI model is not called.
\<close>

theorem handler_rejects_without_model:
  "(req_method req \<noteq> ''POST'' \<longrightarrow>
      handler js generateContent parse req =
        (\<lparr>status = 405, payload = Error_payload ''Method Not Allowed''\<rparr>, [])) \<and>
   (req_method req = ''POST'' \<and> req_body req = Some body \<and> body \<noteq> JNull \<and> no_image_parts body \<longrightarrow>
      handler js generateContent parse req =
        (\<lparr>status = 400, payload = Error_payload ''Image data is required.''\<rparr>, []))"
proof (intro conjI impI)
  assume "req_method req \<noteq> ''POST''"
  then show "handler js generateContent parse req =
        (\<lparr>status = 405, payload = Error_payload ''Method Not Allowed''\<rparr>, [])"
    by (simp add: handler_def)
next
  assume a: "req_method req = ''POST'' \<and> req_body req = Some body \<and> body \<noteq> JNull \<and> no_image_parts body"
  then have t: "\<not> truthy (property body ''imageParts'') \<or> \<not> isArray (property body ''imageParts'') \<or>
     array_length (property body ''imageParts'') = 0"
    by (simp add: no_image_parts_test)
  from a t show "handler js generateContent parse req =
        (\<lparr>status = 400, payload = Error_payload ''Image data is required.''\<rparr>, [])"
    by (cases body) (auto simp add: handler_def Let_def)
qed

theorem handler_rejects_without_model_witness:
  "handler engine0 model_replies (parse_as good_listing) get_request =
     (\<lparr>status = 405, payload = Error_payload ''Method Not Allowed''\<rparr>, []) \<and>
   no_image_parts (JObj [(''personalNote'', JStr ''boxed'')]) \<and>
   handler engine0 model_replies (parse_as good_listing) post_without_images =
     (\<lparr>status = 400, payload = Error_payload ''Image data is required.''\<rparr>, [])"
proof -
  have g: "req_method get_request \<noteq> ''POST''"
    by (simp add: get_request_def)
  have p: "req_method post_without_images = ''POST'' \<and>
      req_body post_without_images = Some (JObj [(''personalNote'', JStr ''boxed'')]) \<and>
      JObj [(''personalNote'', JStr ''boxed'')] \<noteq> JNull \<and>
      no_image_parts (JObj [(''personalNote'', JStr ''boxed'')])"
    by (simp add: post_without_images_def no_image_parts_def)
  from handler_rejects_without_model
         [where req = get_request and js = engine0 and generateContent = model_replies
            and parse = "parse_as good_listing"]
       handler_rejects_without_model
         [where req = post_without_images and js = engine0 and generateContent = model_replies
            and parse = "parse_as good_listing"
            and body = "JObj [(''personalNote'', JStr ''boxed'')]"]
       g p
  show ?thesis by simp
qed

text \<open>
  Claim C10 as stated fails: a \<open>POST\<close> request without a body has no \<open>imageParts\<close>,
  and the destructuring of \<open>req.body\<close> throws inside the \<open>try\<close>, so the answer is 500,
  not 400; and a \<open>GET\<close> request without \<open>imageParts\<close> is answered with 405, not 400.
\<close>

theorem handler_missing_image_parts_counterexample:
  "req_body post_without_body = None \<and>
   status (fst (handler engine0 model_replies (parse_as good_listing) post_without_body)) = 500 \<and>
   req_body get_request = None \<and>
   status (fst (handler engine0 model_replies (parse_as good_listing) get_request)) = 405"
  by (simp add: handler_def post_without_body_def get_request_def failed_def)

section \<open>Properties of the application's handlers\<close>

text \<open>
  Claim C7, amended. A publish invocation with a listing ends in exactly one of success
  and error, never both and never neither, and is no longer loading. A failure thrown
  as an \<open>Error\<close> is shown with its own message. A result returned with \<open>success\<close>
  false is shown as \<open>Posting failed for an unknown reason.\<close> whatever reason it carries,
  and a thrown value that is no \<open>Error\<close> as \<open>Failed to post to eBay.\<close>
\<close>

theorem handlePostToEbay_single_outcome:
  assumes "truthy (listing a)"
    and "post (the (listing a)) (files a) b = (r, b')"
  shows "handlePostToEbay post (a, b) = (a\<lparr>postStatus := post_outcome r\<rparr>, b') \<and>
         \<not> loading (post_outcome r) \<and>
         (error (post_outcome r) = None) \<noteq> (success (post_outcome r) = None) \<and>
         (success (post_outcome r) \<noteq> None \<longleftrightarrow> (\<exists>res. r = Inr res \<and> pr_success res)) \<and>
         (\<forall>m. r = Inl (Error m) \<longrightarrow> error (post_outcome r) = Some m) \<and>
         (r = Inl Thrown_value \<longrightarrow> error (post_outcome r) = Some ''Failed to post to eBay.'') \<and>
         (\<forall>res. r = Inr res \<and> \<not> pr_success res \<longrightarrow>
            error (post_outcome r) = Some ''Posting failed for an unknown reason.'')"
proof -
  from assms have "handlePostToEbay post (a, b) = (a\<lparr>postStatus := post_outcome r\<rparr>, b')"
    by (simp add: handlePostToEbay_def)
  moreover have "\<not> loading (post_outcome r)"
    by (simp add: post_outcome_def split: sum.splits thrown.splits)
  moreover have "(error (post_outcome r) = None) \<noteq> (success (post_outcome r) = None)"
    by (simp add: post_outcome_def split: sum.splits thrown.splits)
  moreover have "success (post_outcome r) \<noteq> None \<longleftrightarrow> (\<exists>res. r = Inr res \<and> pr_success res)"
    by (simp add: post_outcome_def split: sum.splits thrown.splits)
  moreover have "\<forall>m. r = Inl (Error m) \<longrightarrow> error (post_outcome r) = Some m"
    by (simp add: post_outcome_def)
  moreover have "r = Inl Thrown_value \<longrightarrow> error (post_outcome r) = Some ''Failed to post to eBay.''"
    by (simp add: post_outcome_def)
  moreover have "\<forall>res. r = Inr res \<and> \<not> pr_success res \<longrightarrow>
            error (post_outcome r) = Some ''Posting failed for an unknown reason.''"
    by (simp add: post_outcome_def)
  ultimately show ?thesis by blast
qed

lemma app_listed_listing: "listing app_listed = Some good_listing"
  by (simp add: app_listed_def)

lemma good_listing_truthy: "truthy (Some good_listing)"
  by (simp add: good_listing_def)

theorem handlePostToEbay_single_outcome_witness:
  "truthy (listing app_listed) \<and>
   error (postStatus (fst (handlePostToEbay throwing_service (app_listed, ())))) =
     Some ''Media upload failed.'' \<and>
   success (postStatus (fst (handlePostToEbay throwing_service (app_listed, ())))) = None \<and>
   error (postStatus (fst (handlePostToEbay declining_service (app_listed, ())))) =
     Some ''Posting failed for an unknown reason.'' \<and>
   error (postStatus (fst (handlePostToEbay value_throwing_service (app_listed, ())))) =
     Some ''Failed to post to eBay.''"
proof -
  have t: "truthy (listing app_listed)"
    by (simp add: app_listed_listing good_listing_truthy)
  have p: "throwing_service (the (listing app_listed)) (files app_listed) () =
             (Inl (Error ''Media upload failed.''), ())"
    by (simp add: throwing_service_def)
  have d: "declining_service (the (listing app_listed)) (files app_listed) () =
             (Inr brand_missing, ())"
    by (simp add: declining_service_def)
  have n: "\<not> pr_success brand_missing"
    by (simp add: brand_missing_def)
  have v: "value_throwing_service (the (listing app_listed)) (files app_listed) () =
             (Inl Thrown_value, ())"
    by (simp add: value_throwing_service_def)
  from handlePostToEbay_single_outcome
         [where post = throwing_service and a = app_listed and b = "()"
            and r = "Inl (Error ''Media upload failed.'')" and b' = "()"]
       handlePostToEbay_single_outcome
         [where post = declining_service and a = app_listed and b = "()"
            and r = "Inr brand_missing" and b' = "()"]
       handlePostToEbay_single_outcome
         [where post = value_throwing_service and a = app_listed and b = "()"
            and r = "Inl Thrown_value" and b' = "()"]
       t p d n v
  show ?thesis by simp
qed

text \<open>
  Claim C7 as stated fails: when \<open>postListingToEbay\<close> returns a result that is not a
  success and carries the reason \<open>ListingRejected\<close> with the marketplace's message, the
  status shown is the generic \<open>Posting failed for an unknown reason.\<close>
\<close>

theorem handlePostToEbay_generic_message_counterexample:
  "failureReason brand_missing = Some (ListingRejected ''The item specific Brand is missing.'') \<and>
   declining_service good_listing [photo] () = (Inr brand_missing, ()) \<and>
   listing app_listed = Some good_listing \<and> files app_listed = [photo] \<and>
   error (postStatus (fst (handlePostToEbay declining_service (app_listed, ())))) =
     Some ''Posting failed for an unknown reason.''"
  by (simp add: handlePostToEbay_def declining_service_def app_listed_def app0_def
      good_listing_def brand_missing_def post_outcome_def)

section \<open>Properties of the connection to the marketplace\<close>

lemma session1_fields:
  "nonce session1 = Some ''n''" "tokenStore session1 = None"
  "redeemable session1 = [(''code-1'', tokens0)]" "issued session1 = 1" "calls session1 = []"
  by (simp_all add: session1_def beginAuthorization_def Let_def market0_def session0_def)

lemma callback_fails:
  assumes "location_pathname a = ''/ebay/callback''"
    and "map_of (location_search a) ''code'' = Some code" and "code \<noteq> []"
    and "exch code (location_search a) b = (Inl t, b')"
  shows "handleEbayCallback exch (a, b) =
           (a\<lparr>appError := Some ''Failed to connect your eBay account. Please try again.'',
              isConnecting := False, location_search := []\<rparr>, b')"
  using assms by (simp add: handleEbayCallback_def)

lemma callback_connects:
  assumes "location_pathname a = ''/ebay/callback''"
    and "map_of (location_search a) ''code'' = Some code" and "code \<noteq> []"
    and "exch code (location_search a) b = (Inr u, b')"
  shows "handleEbayCallback exch (a, b) =
           (a\<lparr>isEbayConnected := True, isConnecting := False, location_search := []\<rparr>, b')"
  using assms by (simp add: handleEbayCallback_def)

lemma mismatch_exchange:
  assumes "\<forall>s. map_of q ''state'' = Some s \<longrightarrow> nonce w \<noteq> Some s"
  shows "exchangeCodeForToken code q w = (Inl (Error ''InvalidState''), w)"
proof (cases "map_of q ''state''")
  case None
  then show ?thesis by (simp add: exchangeCodeForToken_def failure_name_def)
next
  case (Some s)
  with assms have "nonce w \<noteq> Some s" by simp
  with Some show ?thesis
    by (simp add: exchangeCodeForToken_def completeAuthorization_def failure_name_def)
qed

text \<open>
  A callback whose state is the nonce issued, with a code the marketplace has issued,
  connects: the state test does not reject everything.
\<close>

lemma genuine_callback_connects:
  "handleEbayCallback exchangeCodeForToken (genuine_callback, session1) =
     (genuine_callback\<lparr>isEbayConnected := True, isConnecting := False, location_search := []\<rparr>,
      session1\<lparr>redeemable := [], calls := [Token_call ''code-1''], tokenStore := Some tokens0\<rparr>)"
proof -
  have "exchangeCodeForToken ''code-1'' (location_search genuine_callback) session1 =
     (Inr (), session1\<lparr>redeemable := [], calls := [Token_call ''code-1''],
                       tokenStore := Some tokens0\<rparr>)"
    by (simp add: genuine_callback_def exchangeCodeForToken_def completeAuthorization_def
        token_endpoint_def session1_fields)
  moreover have "location_pathname genuine_callback = ''/ebay/callback''"
    "map_of (location_search genuine_callback) ''code'' = Some ''code-1''"
    by (simp_all add: genuine_callback_def)
  ultimately show ?thesis by (simp add: callback_connects)
qed

text \<open>
  Claim C1. A completion whose state does not match the nonce issued for the session
  fails with \<open>InvalidState\<close> and leaves the session, the Token Store with it, as it
  was. Through \<open>handleEbayCallback\<close>: a callback whose \<open>state\<close> parameter is missing or
  is not the nonce issued ends with the connection error shown, and the session is
  unchanged.
\<close>

theorem completeAuthorization_invalid_state:
  "(nonce w \<noteq> Some state \<longrightarrow> completeAuthorization code state w = (Inl InvalidState, w)) \<and>
   (location_pathname a = ''/ebay/callback'' \<and>
    map_of (location_search a) ''code'' = Some code \<and> code \<noteq> [] \<and>
    (\<forall>s. map_of (location_search a) ''state'' = Some s \<longrightarrow> nonce w \<noteq> Some s) \<longrightarrow>
      handleEbayCallback exchangeCodeForToken (a, w) =
        (a\<lparr>appError := Some ''Failed to connect your eBay account. Please try again.'',
           isConnecting := False, location_search := []\<rparr>, w))"
proof (intro conjI impI)
  assume "nonce w \<noteq> Some state"
  then show "completeAuthorization code state w = (Inl InvalidState, w)"
    by (simp add: completeAuthorization_def)
next
  assume h: "location_pathname a = ''/ebay/callback'' \<and>
    map_of (location_search a) ''code'' = Some code \<and> code \<noteq> [] \<and>
    (\<forall>s. map_of (location_search a) ''state'' = Some s \<longrightarrow> nonce w \<noteq> Some s)"
  then have "exchangeCodeForToken code (location_search a) w = (Inl (Error ''InvalidState''), w)"
    by (simp add: mismatch_exchange)
  with h show "handleEbayCallback exchangeCodeForToken (a, w) =
        (a\<lparr>appError := Some ''Failed to connect your eBay account. Please try again.'',
           isConnecting := False, location_search := []\<rparr>, w)"
    by (simp add: callback_fails)
qed

theorem completeAuthorization_invalid_state_witness:
  "nonce session1 = Some ''n'' \<and>
   map_of (location_search forged_callback) ''state'' = Some ''forged'' \<and>
   completeAuthorization ''code-1'' ''forged'' session1 = (Inl InvalidState, session1) \<and>
   snd (handleEbayCallback exchangeCodeForToken (forged_callback, session1)) = session1 \<and>
   tokenStore (snd (handleEbayCallback exchangeCodeForToken (forged_callback, session1))) = None \<and>
   appError (fst (handleEbayCallback exchangeCodeForToken (forged_callback, session1))) =
     Some ''Failed to connect your eBay account. Please try again.''"
proof -
  have n: "nonce session1 \<noteq> Some ''forged''"
    by (simp add: session1_fields)
  have h: "location_pathname forged_callback = ''/ebay/callback'' \<and>
    map_of (location_search forged_callback) ''code'' = Some ''code-1'' \<and> ''code-1'' \<noteq> [] \<and>
    (\<forall>s. map_of (location_search forged_callback) ''state'' = Some s \<longrightarrow> nonce session1 \<noteq> Some s)"
    by (simp add: forged_callback_def session1_fields)
  have s: "map_of (location_search forged_callback) ''state'' = Some ''forged''"
    by (simp add: forged_callback_def)
  from completeAuthorization_invalid_state
         [where w = session1 and state = "''forged''" and code = "''code-1''"
            and a = forged_callback]
       n h s
  show ?thesis by (simp add: session1_fields)
qed

text \<open>
  The \<open>finally\<close> block of the callback handler removes the query from the URL, so
  handling the same page again exchanges nothing: the handler is idempotent.
\<close>

lemma handleEbayCallback_idempotent:
  "handleEbayCallback exch (handleEbayCallback exch (a, b)) = handleEbayCallback exch (a, b)"
proof (cases "location_pathname a = ''/ebay/callback'' \<and>
              (\<exists>code. map_of (location_search a) ''code'' = Some code \<and> code \<noteq> [])")
  case True
  then obtain code where c: "map_of (location_search a) ''code'' = Some code" "code \<noteq> []"
    and p: "location_pathname a = ''/ebay/callback''"
    by blast
  obtain r b' where e: "exch code (location_search a) b = (r, b')"
    by (cases "exch code (location_search a) b")
  from c p e show ?thesis
    by (cases r) (simp_all add: handleEbayCallback_def)
next
  case False
  then have "handleEbayCallback exch (a, b) = (a, b)"
    by (auto simp add: handleEbayCallback_def split: option.splits)
  then show ?thesis by simp
qed

text \<open>
  Claim C8. Disconnecting is idempotent: from every state, \<open>handleEbayDisconnect\<close>
  completes without an error and leaves the Token Store empty, so that \<open>isConnected\<close>
  and \<open>checkEbayConnection\<close> say false and the application shows it is not connected;
  a second call right after completes without an error too and changes nothing.
\<close>

theorem disconnect_idempotent:
  "handleEbayDisconnect disconnectFromEbay (a, w) =
     (None, a\<lparr>isEbayConnected := False\<rparr>, disconnect w) \<and>
   handleEbayDisconnect disconnectFromEbay (a\<lparr>isEbayConnected := False\<rparr>, disconnect w) =
     (None, a\<lparr>isEbayConnected := False\<rparr>, disconnect w) \<and>
   disconnect (disconnect w) = disconnect w \<and>
   \<not> isConnected (disconnect w) \<and>
   fst (checkEbayConnection (disconnect w)) = Inr False"
  by (simp add: handleEbayDisconnect_def disconnectFromEbay_def disconnect_def isConnected_def
      checkEbayConnection_def)

theorem disconnect_idempotent_witness:
  "isConnected connected_session \<and>
   \<not> isConnected (disconnect connected_session) \<and>
   \<not> isConnected (disconnect (disconnect connected_session)) \<and>
   fst (handleEbayDisconnect disconnectFromEbay (app_listed, disconnect connected_session)) = None"
proof -
  have "isConnected connected_session"
    by (simp add: isConnected_def connected_session_def)
  with disconnect_idempotent [of app_listed connected_session]
       disconnect_idempotent [of app_listed "disconnect connected_session"]
  show ?thesis by simp
qed

text \<open>
  Claim C4. A publish invocation with no image fails with \<open>InvalidInput\<close> and makes no
  network call: the session, its log of calls included, is left as it was. Through
  \<open>handlePostToEbay\<close> the invocation ends in an error and the session is unchanged.
\<close>

theorem publish_without_images:
  "publish mp l [] w = (failure_result InvalidInput, w) \<and>
   new_calls w (snd (publish mp l [] w)) = [] \<and>
   (truthy (listing a) \<and> files a = [] \<longrightarrow>
      snd (handlePostToEbay (postListingToEbay mp) (a, w)) = w \<and>
      error (postStatus (fst (handlePostToEbay (postListingToEbay mp) (a, w)))) \<noteq> None \<and>
      success (postStatus (fst (handlePostToEbay (postListingToEbay mp) (a, w)))) = None)"
  by (simp add: publish_def new_calls_def handlePostToEbay_def postListingToEbay_def
      post_outcome_def failure_result_def)

theorem publish_without_images_witness:
  "publish market0 good_listing [] connected_session =
     (\<lparr>pr_success = False, itemUrl = None, failureReason = Some InvalidInput\<rparr>, connected_session) \<and>
   calls (snd (publish market0 good_listing [] connected_session)) = [] \<and>
   truthy (listing app_unpictured) \<and> files app_unpictured = [] \<and>
   snd (handlePostToEbay (postListingToEbay market0) (app_unpictured, connected_session)) =
     connected_session \<and>
   success (postStatus (fst (handlePostToEbay (postListingToEbay market0)
                               (app_unpictured, connected_session)))) = None"
proof -
  have "calls connected_session = []"
    by (simp add: connected_session_def session0_def)
  moreover have "truthy (listing app_unpictured)"
    by (simp add: app_unpictured_def app_listed_listing good_listing_truthy)
  moreover have "files app_unpictured = []"
    by (simp add: app_unpictured_def)
  ultimately show ?thesis
    using publish_without_images [of market0 good_listing connected_session app_unpictured]
    by (simp add: failure_result_def)
qed

section \<open>Properties of the authorization exchange\<close>

lemma attempt_redeemable:
  "attempt mp call request ts w = (r, w') \<Longrightarrow> redeemable w' = redeemable w"
  by (auto simp add: attempt_def split: if_splits)

lemma step_redeemable:
  assumes "step mp call request declined (w, f) = (r, w', f')"
  shows "redeemable w' = redeemable w"
proof (cases "tokenStore w")
  case None
  with assms show ?thesis by (simp add: step_def)
next
  case (Some ts)
  obtain r1 w1 where a1: "attempt mp call request ts w = (r1, w1)"
    by (cases "attempt mp call request ts w")
  note k1 = attempt_redeemable [OF a1]
  show ?thesis
  proof (cases r1)
    case (Accepted x)
    with assms Some a1 k1 show ?thesis by (simp add: step_def)
  next
    case (Declined m)
    with assms Some a1 k1 show ?thesis by (simp add: step_def)
  next
    case Token_expired
    show ?thesis
    proof (cases f)
      case True
      with assms Some a1 k1 Token_expired show ?thesis by (simp add: step_def)
    next
      case False
      show ?thesis
      proof (cases "refresh_endpoint mp (refreshToken ts)")
        case None
        with assms Some a1 k1 Token_expired False show ?thesis
          by (auto simp add: step_def refresh_def)
      next
        case (Some ts')
        obtain r3 w3 where a3:
          "attempt mp call request ts'
             (w1\<lparr>calls := calls w1 @ [Refresh_call (refreshToken ts)], tokenStore := Some ts'\<rparr>) = (r3, w3)"
          by (cases "attempt mp call request ts'
             (w1\<lparr>calls := calls w1 @ [Refresh_call (refreshToken ts)], tokenStore := Some ts'\<rparr>)")
        from attempt_redeemable [OF a3] k1 have "redeemable w3 = redeemable w" by simp
        with assms \<open>tokenStore w = Some ts\<close> a1 Token_expired False Some a3 show ?thesis
          by (cases r3) (auto simp add: step_def refresh_def)
      qed
    qed
  qed
qed

lemma upload_all_redeemable:
  "upload_all mp images (w, f) = (r, w', f') \<Longrightarrow> redeemable w' = redeemable w"
proof (induction images arbitrary: w f r w' f')
  case Nil
  then show ?case by simp
next
  case (Cons img images)
  obtain r1 w1 f1 where s1:
    "step mp (Upload_call img) (\<lambda>tok. media_endpoint mp tok img) (\<lambda>m. MediaUploadFailed) (w, f)
       = (r1, w1, f1)"
    by (metis prod_cases3)
  note k1 = step_redeemable [OF s1]
  show ?case
  proof (cases r1)
    case (Inl e)
    with Cons.prems s1 k1 show ?thesis by simp
  next
    case (Inr url)
    obtain r2 w2 f2 where u2: "upload_all mp images (w1, f1) = (r2, w2, f2)"
      by (metis prod_cases3)
    from Cons.IH [OF u2] k1 have "redeemable w2 = redeemable w" by simp
    with Cons.prems s1 Inr u2 show ?thesis by (cases r2) auto
  qed
qed

lemma list_item_redeemable:
  assumes "list_item mp l refs (w, f) = (r, w', f')"
  shows "redeemable w' = redeemable w"
proof -
  obtain r1 w1 f1 where s1:
    "step mp Draft_call (\<lambda>tok. inventory_endpoint mp tok (make_draft l refs)) ListingRejected (w, f)
       = (r1, w1, f1)"
    by (metis prod_cases3)
  note k1 = step_redeemable [OF s1]
  show ?thesis
  proof (cases r1)
    case (Inl e)
    with assms s1 k1 show ?thesis by (simp add: list_item_def)
  next
    case (Inr sku)
    obtain r2 w2 f2 where s2:
      "step mp Offer_call (\<lambda>tok. offer_endpoint mp tok sku) ListingRejected (w1, f1) = (r2, w2, f2)"
      by (metis prod_cases3)
    note k2 = step_redeemable [OF s2]
    show ?thesis
    proof (cases r2)
      case (Inl e)
      with assms s1 \<open>r1 = Inr sku\<close> s2 k1 k2 show ?thesis by (simp add: list_item_def)
    next
      case (Inr offer)
      from assms s1 \<open>r1 = Inr sku\<close> s2 Inr
      have "step mp Publish_call (\<lambda>tok. publish_endpoint mp tok offer) ListingRejected (w2, f2)
              = (r, w', f')"
        by (simp add: list_item_def)
      from step_redeemable [OF this] k1 k2 show ?thesis by simp
    qed
  qed
qed

lemma publish_redeemable: "redeemable (snd (publish mp l images w)) = redeemable w"
proof (cases "images = [] \<or> \<not> valid_selection images \<or> \<not> isConnected w")
  case True
  then show ?thesis by (auto simp add: publish_def)
next
  case False
  obtain r1 w1 f1 where u1: "upload_all mp images (w, False) = (r1, w1, f1)"
    by (metis prod_cases3)
  note k1 = upload_all_redeemable [OF u1]
  show ?thesis
  proof (cases r1)
    case (Inl e)
    with False u1 k1 show ?thesis by (simp add: publish_def)
  next
    case (Inr refs)
    obtain r2 w2 f2 where l2: "list_item mp l refs (w1, f1) = (r2, w2, f2)"
      by (metis prod_cases3)
    from list_item_redeemable [OF l2] k1 have "redeemable w2 = redeemable w" by simp
    with False u1 Inr l2 show ?thesis by (cases r2) (simp_all add: publish_def)
  qed
qed

lemma perform_keeps_spent:
  "map_of (redeemable w) code = None \<Longrightarrow> map_of (redeemable (perform mp operation w)) code = None"
proof (cases operation)
  case Begin
  assume "map_of (redeemable w) code = None"
  with Begin show ?thesis by (simp add: beginAuthorization_def Let_def)
next
  case (Complete c st)
  assume "map_of (redeemable w) code = None"
  with Complete show ?thesis
    by (auto simp add: completeAuthorization_def token_endpoint_def map_of_eq_None_iff
        split: option.splits)
next
  case Disconnect
  assume "map_of (redeemable w) code = None"
  with Disconnect show ?thesis by (simp add: disconnect_def)
next
  case (Publish l images)
  assume "map_of (redeemable w) code = None"
  with Publish show ?thesis by (simp add: publish_redeemable)
qed

lemma run_keeps_spent:
  "map_of (redeemable w) code = None \<Longrightarrow>
     map_of (redeemable (fold (perform mp) operations w)) code = None"
  by (induction operations arbitrary: w) (simp_all add: perform_keeps_spent)

lemma spent_code_never_succeeds:
  "map_of (redeemable w) code = None \<Longrightarrow> fst (completeAuthorization code state w) \<noteq> Inr t"
  by (simp add: completeAuthorization_def token_endpoint_def)

lemma spent_code_fails:
  "map_of (redeemable w) code = None \<Longrightarrow> nonce w = Some state \<Longrightarrow>
     fst (completeAuthorization code state w) = Inl ExchangeFailed"
  by (simp add: completeAuthorization_def token_endpoint_def)

lemma first_exchange:
  assumes "nonce w = Some state" and "map_of (redeemable w) code = Some ts"
  shows "fst (completeAuthorization code state w) = Inr ts"
    and "tokenStore (snd (completeAuthorization code state w)) = Some ts"
    and "map_of (redeemable (snd (completeAuthorization code state w))) code = None"
    and "nonce (snd (completeAuthorization code state w)) = Some state"
  using assms
  by (auto simp add: completeAuthorization_def token_endpoint_def map_of_eq_None_iff)

text \<open>
  Claim C3. An authorization code is exchanged at most once. A first completion with
  a code the marketplace has issued and the state that matches the nonce issued
  succeeds, returns the TokenSet of the code and stores it. The same call repeated
  fails with \<open>ExchangeFailed\<close>. After that, whatever operations of the service come in
  between, no completion with the same code succeeds, whatever its state, and every
  one whose state matches the nonce then outstanding fails with \<open>ExchangeFailed\<close>;
  \<open>exchangeCodeForToken\<close>, which the callback handler awaits, rejects.
\<close>

theorem completeAuthorization_at_most_once:
  assumes "nonce w = Some state" and "map_of (redeemable w) code = Some ts"
  shows "fst (completeAuthorization code state w) = Inr ts \<and>
         tokenStore (snd (completeAuthorization code state w)) = Some ts \<and>
         fst (completeAuthorization code state (snd (completeAuthorization code state w)))
           = Inl ExchangeFailed \<and>
         (\<forall>operations state'.
            (\<forall>t. fst (completeAuthorization code state'
                        (fold (perform mp) operations (snd (completeAuthorization code state w))))
                    \<noteq> Inr t) \<and>
            (nonce (fold (perform mp) operations (snd (completeAuthorization code state w)))
               = Some state' \<longrightarrow>
             fst (completeAuthorization code state'
                    (fold (perform mp) operations (snd (completeAuthorization code state w))))
               = Inl ExchangeFailed)) \<and>
         (map_of q ''state'' = Some state \<longrightarrow>
            fst (exchangeCodeForToken code q (snd (completeAuthorization code state w)))
              = Inl (Error ''ExchangeFailed''))"
proof -
  note f = first_exchange [OF assms]
  have again: "fst (completeAuthorization code state (snd (completeAuthorization code state w)))
           = Inl ExchangeFailed"
    using f(3) f(4) by (rule spent_code_fails)
  have later: "\<forall>operations state'.
            (\<forall>t. fst (completeAuthorization code state'
                        (fold (perform mp) operations (snd (completeAuthorization code state w))))
                    \<noteq> Inr t) \<and>
            (nonce (fold (perform mp) operations (snd (completeAuthorization code state w)))
               = Some state' \<longrightarrow>
             fst (completeAuthorization code state'
                    (fold (perform mp) operations (snd (completeAuthorization code state w))))
               = Inl ExchangeFailed)"
    using f(3) by (simp add: run_keeps_spent spent_code_never_succeeds spent_code_fails)
  have service: "map_of q ''state'' = Some state \<longrightarrow>
            fst (exchangeCodeForToken code q (snd (completeAuthorization code state w)))
              = Inl (Error ''ExchangeFailed'')"
  proof
    assume "map_of q ''state'' = Some state"
    with again show "fst (exchangeCodeForToken code q (snd (completeAuthorization code state w)))
              = Inl (Error ''ExchangeFailed'')"
      by (auto simp add: exchangeCodeForToken_def failure_name_def split: prod.splits sum.splits)
  qed
  from f(1) f(2) again later service show ?thesis by blast
qed

lemma after_first_exchange:
  "snd (completeAuthorization ''code-1'' ''n'' session1) =
     session1\<lparr>redeemable := [], calls := [Token_call ''code-1''], tokenStore := Some tokens0\<rparr>"
  by (simp add: completeAuthorization_def token_endpoint_def session1_fields)

lemma nonce_after_reconnect:
  "nonce (fold (perform market0) [Disconnect, Begin]
            (snd (completeAuthorization ''code-1'' ''n'' session1))) = Some ''nn''"
  by (simp add: after_first_exchange disconnect_def beginAuthorization_def Let_def
      session1_fields market0_def)

theorem completeAuthorization_at_most_once_witness:
  "nonce session1 = Some ''n'' \<and>
   map_of (redeemable session1) ''code-1'' = Some tokens0 \<and>
   fst (completeAuthorization ''code-1'' ''n'' session1) = Inr tokens0 \<and>
   tokenStore (snd (completeAuthorization ''code-1'' ''n'' session1)) = Some tokens0 \<and>
   fst (completeAuthorization ''code-1'' ''n'' (snd (completeAuthorization ''code-1'' ''n'' session1)))
     = Inl ExchangeFailed \<and>
   fst (completeAuthorization ''code-1'' ''nn''
          (fold (perform market0) [Disconnect, Begin]
             (snd (completeAuthorization ''code-1'' ''n'' session1))))
     = Inl ExchangeFailed \<and>
   fst (exchangeCodeForToken ''code-1'' (location_search genuine_callback)
          (snd (completeAuthorization ''code-1'' ''n'' session1)))
     = Inl (Error ''ExchangeFailed'')"
proof -
  have n: "nonce session1 = Some ''n''"
    by (simp add: session1_fields)
  have c: "map_of (redeemable session1) ''code-1'' = Some tokens0"
    by (simp add: session1_fields)
  have q: "map_of (location_search genuine_callback) ''state'' = Some ''n''"
    by (simp add: genuine_callback_def)
  note t = completeAuthorization_at_most_once
             [OF n c, where mp = market0 and q = "location_search genuine_callback"]
  from t have "fst (completeAuthorization ''code-1'' ''n'' session1) = Inr tokens0"
    and "tokenStore (snd (completeAuthorization ''code-1'' ''n'' session1)) = Some tokens0"
    and "fst (completeAuthorization ''code-1'' ''n''
                (snd (completeAuthorization ''code-1'' ''n'' session1))) = Inl ExchangeFailed"
    by blast+
  moreover from t nonce_after_reconnect
  have "fst (completeAuthorization ''code-1'' ''nn''
          (fold (perform market0) [Disconnect, Begin]
             (snd (completeAuthorization ''code-1'' ''n'' session1))))
     = Inl ExchangeFailed"
    by blast
  moreover from t q
  have "fst (exchangeCodeForToken ''code-1'' (location_search genuine_callback)
          (snd (completeAuthorization ''code-1'' ''n'' session1)))
     = Inl (Error ''ExchangeFailed'')"
    by blast
  ultimately show ?thesis using n c by blast
qed

section \<open>Properties of publishing\<close>

lemma refresh_safe_iff:
  "refresh_safe mp w e w' \<longleftrightarrow>
     (\<exists>new. calls w' = calls w @ new \<and>
        ((\<exists>c \<in> set new. failed_refresh mp c) \<longrightarrow> e = Some NotConnected \<and> tokenStore w' = None))"
  by (auto simp add: refresh_safe_def new_calls_def prefix_def list_ex_iff)

lemma refresh_safe_refl: "refresh_safe mp w e w"
  by (simp add: refresh_safe_iff)

lemma refresh_safe_trans:
  assumes "refresh_safe mp w None w1" and "refresh_safe mp w1 e w2"
  shows "refresh_safe mp w e w2"
proof -
  from assms(1) obtain n1 where n1: "calls w1 = calls w @ n1"
    and c1: "\<not> (\<exists>c \<in> set n1. failed_refresh mp c)"
    by (auto simp add: refresh_safe_iff)
  from assms(2) obtain n2 where n2: "calls w2 = calls w1 @ n2"
    and c2: "(\<exists>c \<in> set n2. failed_refresh mp c) \<longrightarrow> e = Some NotConnected \<and> tokenStore w2 = None"
    by (auto simp add: refresh_safe_iff)
  from n1 n2 have "calls w2 = calls w @ (n1 @ n2)" by simp
  moreover from c1 c2
  have "(\<exists>c \<in> set (n1 @ n2). failed_refresh mp c) \<longrightarrow> e = Some NotConnected \<and> tokenStore w2 = None"
    by auto
  ultimately show ?thesis unfolding refresh_safe_iff by blast
qed

lemma attempt_log:
  assumes "attempt mp call request ts w = (r, w')" and "\<not> failed_refresh mp call"
  shows "refresh_safe mp w None w'"
proof (cases "expiring mp ts")
  case True
  with assms show ?thesis by (simp add: attempt_def refresh_safe_refl)
next
  case False
  with assms have "calls w' = calls w @ [call]" by (auto simp add: attempt_def)
  with assms(2) show ?thesis unfolding refresh_safe_iff by auto
qed

lemma refused_refresh_log:
  assumes "refresh_endpoint mp (refreshToken ts) = None"
  shows "refresh_safe mp w (Some NotConnected)
           (w\<lparr>calls := calls w @ [Refresh_call (refreshToken ts)], tokenStore := None\<rparr>)"
  unfolding refresh_safe_iff by simp

lemma granted_refresh_log:
  assumes "refresh_endpoint mp (refreshToken ts) = Some ts'"
  shows "refresh_safe mp w None
           (w\<lparr>calls := calls w @ [Refresh_call (refreshToken ts)], tokenStore := Some ts'\<rparr>)"
  unfolding refresh_safe_iff using assms by (simp add: failed_refresh_def)

lemma refresh_safe_any: "refresh_safe mp w None w' \<Longrightarrow> refresh_safe mp w e w'"
  by (auto simp add: refresh_safe_iff)

lemma step_log:
  assumes "step mp call request declined (w, f) = (r, w', f')" and "\<not> failed_refresh mp call"
  shows "refresh_safe mp w (failure_of r) w'"
proof (cases "tokenStore w")
  case None
  with assms show ?thesis by (auto simp add: step_def refresh_safe_refl)
next
  case (Some ts)
  obtain r1 w1 where a1: "attempt mp call request ts w = (r1, w1)"
    by (cases "attempt mp call request ts w")
  note k1 = attempt_log [OF a1 assms(2)]
  show ?thesis
  proof (cases r1)
    case (Accepted x)
    with assms Some a1 k1 show ?thesis by (auto simp add: step_def intro: refresh_safe_any)
  next
    case (Declined m)
    with assms Some a1 k1 show ?thesis by (auto simp add: step_def intro: refresh_safe_any)
  next
    case Token_expired
    show ?thesis
    proof (cases f)
      case True
      with assms Some a1 k1 Token_expired show ?thesis
        by (auto simp add: step_def intro: refresh_safe_any)
    next
      case False
      show ?thesis
      proof (cases "refresh_endpoint mp (refreshToken ts)")
        case None
        from refused_refresh_log [OF None, of w1] k1
        have "refresh_safe mp w (Some NotConnected)
           (w1\<lparr>calls := calls w1 @ [Refresh_call (refreshToken ts)], tokenStore := None\<rparr>)"
          by (rule refresh_safe_trans [rotated])
        with assms \<open>tokenStore w = Some ts\<close> a1 Token_expired False None show ?thesis
          by (auto simp add: step_def refresh_def failure_of_def)
      next
        case (Some ts')
        let ?w2 = "w1\<lparr>calls := calls w1 @ [Refresh_call (refreshToken ts)], tokenStore := Some ts'\<rparr>"
        obtain r3 w3 where a3: "attempt mp call request ts' ?w2 = (r3, w3)"
          by (cases "attempt mp call request ts' ?w2")
        from granted_refresh_log [OF Some, of w1] k1
        have "refresh_safe mp w None ?w2" by (rule refresh_safe_trans [rotated])
        from this attempt_log [OF a3 assms(2)]
        have "refresh_safe mp w None w3" by (rule refresh_safe_trans)
        then have k3: "refresh_safe mp w (failure_of r) w3" by (rule refresh_safe_any)
        from assms \<open>tokenStore w = Some ts\<close> a1 Token_expired False Some a3
        have "w' = w3" by (cases r3) (auto simp add: step_def refresh_def)
        with k3 show ?thesis by simp
      qed
    qed
  qed
qed

lemma upload_all_log:
  "upload_all mp images (w, f) = (r, w', f') \<Longrightarrow> refresh_safe mp w (failure_of r) w'"
proof (induction images arbitrary: w f r w' f')
  case Nil
  then show ?case by (auto simp add: refresh_safe_refl)
next
  case (Cons img images)
  obtain r1 w1 f1 where s1:
    "step mp (Upload_call img) (\<lambda>tok. media_endpoint mp tok img) (\<lambda>m. MediaUploadFailed) (w, f)
       = (r1, w1, f1)"
    by (metis prod_cases3)
  have "\<not> failed_refresh mp (Upload_call img)" by (simp add: failed_refresh_def)
  note k1 = step_log [OF s1 this]
  show ?case
  proof (cases r1)
    case (Inl e)
    with Cons.prems s1 k1 show ?thesis by (auto simp add: failure_of_def)
  next
    case (Inr url)
    obtain r2 w2 f2 where u2: "upload_all mp images (w1, f1) = (r2, w2, f2)"
      by (metis prod_cases3)
    from k1 Inr have "refresh_safe mp w None w1" by (simp add: failure_of_def)
    from this Cons.IH [OF u2] have k2: "refresh_safe mp w (failure_of r2) w2"
      by (rule refresh_safe_trans)
    from Cons.prems s1 Inr u2 have "w' = w2 \<and> failure_of r = failure_of r2"
      by (cases r2) (auto simp add: failure_of_def)
    with k2 show ?thesis by simp
  qed
qed

lemma list_item_log:
  assumes "list_item mp l refs (w, f) = (r, w', f')"
  shows "refresh_safe mp w (failure_of r) w'"
proof -
  obtain r1 w1 f1 where s1:
    "step mp Draft_call (\<lambda>tok. inventory_endpoint mp tok (make_draft l refs)) ListingRejected (w, f)
       = (r1, w1, f1)"
    by (metis prod_cases3)
  have "\<not> failed_refresh mp Draft_call" by (simp add: failed_refresh_def)
  note k1 = step_log [OF s1 this]
  show ?thesis
  proof (cases r1)
    case (Inl e)
    with assms s1 k1 show ?thesis by (auto simp add: list_item_def failure_of_def)
  next
    case (Inr sku)
    from k1 Inr have c1: "refresh_safe mp w None w1" by (simp add: failure_of_def)
    obtain r2 w2 f2 where s2:
      "step mp Offer_call (\<lambda>tok. offer_endpoint mp tok sku) ListingRejected (w1, f1) = (r2, w2, f2)"
      by (metis prod_cases3)
    have "\<not> failed_refresh mp Offer_call" by (simp add: failed_refresh_def)
    note k2 = step_log [OF s2 this]
    from c1 k2 have c2: "refresh_safe mp w (failure_of r2) w2" by (rule refresh_safe_trans)
    show ?thesis
    proof (cases r2)
      case (Inl e)
      with assms s1 \<open>r1 = Inr sku\<close> s2 c2 show ?thesis
        by (auto simp add: list_item_def failure_of_def)
    next
      case (Inr offer)
      from assms s1 \<open>r1 = Inr sku\<close> s2 Inr
      have s3: "step mp Publish_call (\<lambda>tok. publish_endpoint mp tok offer) ListingRejected (w2, f2)
              = (r, w', f')"
        by (simp add: list_item_def)
      have "\<not> failed_refresh mp Publish_call" by (simp add: failed_refresh_def)
      note k3 = step_log [OF s3 this]
      from c2 Inr have "refresh_safe mp w None w2" by (simp add: failure_of_def)
      from this k3 show ?thesis by (rule refresh_safe_trans)
    qed
  qed
qed

lemma publish_log:
  "refresh_safe mp w (failureReason (fst (publish mp l images w))) (snd (publish mp l images w))"
proof (cases "images = [] \<or> \<not> valid_selection images \<or> \<not> isConnected w")
  case True
  then show ?thesis by (auto simp add: publish_def refresh_safe_refl)
next
  case False
  obtain r1 w1 f1 where u1: "upload_all mp images (w, False) = (r1, w1, f1)"
    by (metis prod_cases3)
  note k1 = upload_all_log [OF u1]
  show ?thesis
  proof (cases r1)
    case (Inl e)
    with False u1 k1 show ?thesis by (simp add: publish_def failure_result_def failure_of_def)
  next
    case (Inr refs)
    obtain r2 w2 f2 where l2: "list_item mp l refs (w1, f1) = (r2, w2, f2)"
      by (metis prod_cases3)
    from k1 Inr have "refresh_safe mp w None w1" by (simp add: failure_of_def)
    from this list_item_log [OF l2] have "refresh_safe mp w (failure_of r2) w2"
      by (rule refresh_safe_trans)
    with False u1 Inr l2 show ?thesis
      by (cases r2) (simp_all add: publish_def failure_result_def failure_of_def)
  qed
qed

lemma publish_failure_shape:
  "failureReason (fst (publish mp l images w)) = Some e \<Longrightarrow>
     fst (publish mp l images w) = failure_result e"
  by (auto simp add: publish_def failure_result_def split: if_splits prod.splits sum.splits)

text \<open>
  Claim C2. When the refresh made during a publish invocation fails (the log of the
  invocation holds a refresh call the marketplace refused), the invocation fails with
  \<open>NotConnected\<close>, the Token Store is empty afterwards, and \<open>isConnected\<close> and
  \<open>checkEbayConnection\<close> then say false, so that the application shows it is not
  connected the next time it asks (\<open>initialize\<close>).
\<close>

theorem publish_refresh_failure:
  assumes "\<exists>c \<in> set (new_calls w (snd (publish mp l images w))). failed_refresh mp c"
  shows "fst (publish mp l images w) = failure_result NotConnected \<and>
         tokenStore (snd (publish mp l images w)) = None \<and>
         \<not> isConnected (snd (publish mp l images w)) \<and>
         fst (checkEbayConnection (snd (publish mp l images w))) = Inr False \<and>
         \<not> isEbayConnected (fst (initialize checkEbayConnection (a, snd (publish mp l images w))))"
proof -
  from publish_log [of mp w l images] obtain new
    where n: "calls (snd (publish mp l images w)) = calls w @ new"
      and c: "(\<exists>c \<in> set new. failed_refresh mp c) \<longrightarrow>
                failureReason (fst (publish mp l images w)) = Some NotConnected \<and>
                tokenStore (snd (publish mp l images w)) = None"
    unfolding refresh_safe_iff by blast
  from n have "new_calls w (snd (publish mp l images w)) = new"
    by (simp add: new_calls_def)
  with assms c have r: "failureReason (fst (publish mp l images w)) = Some NotConnected"
    and t: "tokenStore (snd (publish mp l images w)) = None"
    by auto
  from publish_failure_shape [OF r] t show ?thesis
    by (simp add: isConnected_def checkEbayConnection_def initialize_def)
qed

lemma stale_publish:
  "publish market0 good_listing [photo] stale_session =
     (\<lparr>pr_success = False, itemUrl = None, failureReason = Some NotConnected\<rparr>,
      \<lparr>tokenStore = None, nonce = None, issued = 0, redeemable = [(''code-1'', tokens0)],
       calls = [Refresh_call ''refresh-0'']\<rparr>)"
proof -
  have v: "valid_selection [photo]" by (simp add: valid_selection_def photo_valid)
  have s: "tokenStore stale_session = Some stale_tokens" "calls stale_session = []"
    by (simp_all add: stale_session_def session0_def)
  have e: "expiring market0 stale_tokens"
    by (simp add: expiring_def market0_def stale_tokens_def)
  have r: "refresh_endpoint market0 ''refresh-0'' = None"
    by (simp add: market0_def)
  have rt: "refreshToken stale_tokens = ''refresh-0''"
    by (simp add: stale_tokens_def tokens0_def)
  have "step market0 (Upload_call photo) (\<lambda>tok. media_endpoint market0 tok photo)
          (\<lambda>m. MediaUploadFailed) (stale_session, False) =
        (Inl NotConnected,
         stale_session\<lparr>calls := [Refresh_call ''refresh-0''], tokenStore := None\<rparr>, True)"
    by (simp add: step_def attempt_def refresh_def s e r rt)
  with v s show ?thesis
    by (simp add: publish_def isConnected_def failure_result_def stale_session_def session0_def)
qed

theorem publish_refresh_failure_witness:
  "new_calls stale_session (snd (publish market0 good_listing [photo] stale_session)) =
     [Refresh_call ''refresh-0''] \<and>
   failed_refresh market0 (Refresh_call ''refresh-0'') \<and>
   isConnected stale_session \<and>
   failureReason (fst (publish market0 good_listing [photo] stale_session)) = Some NotConnected \<and>
   \<not> isConnected (snd (publish market0 good_listing [photo] stale_session))"
proof -
  have n: "new_calls stale_session (snd (publish market0 good_listing [photo] stale_session)) =
     [Refresh_call ''refresh-0'']"
  proof -
    have "calls stale_session = []" by (simp add: stale_session_def session0_def)
    then show ?thesis by (simp add: stale_publish new_calls_def)
  qed
  have f: "failed_refresh market0 (Refresh_call ''refresh-0'')"
    by (simp add: failed_refresh_def market0_def)
  have b: "isConnected stale_session"
    by (simp add: isConnected_def stale_session_def)
  from n f
  have "\<exists>c \<in> set (new_calls stale_session (snd (publish market0 good_listing [photo] stale_session))).
          failed_refresh market0 c"
    by simp
  from publish_refresh_failure [OF this] n f b show ?thesis
    by (simp add: failure_result_def)
qed

lemma publish_after_refresh_example:
  "publish market1 good_listing [photo] stale_session =
     (\<lparr>pr_success = True, itemUrl = Some ''https://market.example/itm/123456'',
       failureReason = None\<rparr>,
      \<lparr>tokenStore = Some tokens0, nonce = None, issued = 0, redeemable = [(''code-1'', tokens0)],
       calls = [Refresh_call ''refresh-0'', Upload_call photo, Draft_call, Offer_call,
                Publish_call]\<rparr>)"
proof -
  have v: "valid_selection [photo]" by (simp add: valid_selection_def photo_valid)
  have s: "tokenStore stale_session = Some stale_tokens" "calls stale_session = []"
    by (simp_all add: stale_session_def session0_def)
  have e: "expiring market1 stale_tokens" "\<not> expiring market1 tokens0"
    by (simp_all add: expiring_def market1_def market0_def stale_tokens_def tokens0_def)
  have rt: "refreshToken stale_tokens = ''refresh-0''"
    by (simp add: stale_tokens_def tokens0_def)
  have r: "refresh_endpoint market1 ''refresh-0'' = Some tokens0"
    by (simp add: market1_def)
  have m: "media_endpoint market1 = (\<lambda>tok img. Accepted (''https://img.example/'' @ file_name img))"
    "inventory_endpoint market1 = (\<lambda>tok d. Accepted ''sku-1'')"
    "offer_endpoint market1 = (\<lambda>tok sku. Accepted ''offer-1'')"
    "publish_endpoint market1 = (\<lambda>tok offer. Accepted ''123456'')"
    "item_url market1 = (\<lambda>item. ''https://market.example/itm/'' @ item)"
    by (simp_all add: market1_def market0_def)
  show ?thesis
    by (simp add: publish_def isConnected_def v s e rt r m step_def attempt_def refresh_def
        list_item_def stale_session_def session0_def)
qed

end
